theory Spec2Isabelle
  imports Complex_Main
begin

section \<open>JavaScript values used by the compiler\<close>

text \<open>
  The OmniScore compiler (\<^verbatim>\<open>src/services/omniParser.ts\<close>) computes with JavaScript
  numbers. They are modelled as exact rationals extended with the two infinities and
  \<^verbatim>\<open>NaN\<close>; the rounding of IEEE doubles and the sign of zero are not modelled.
  Source text and tokens are lists of 8-bit characters (the Latin-1 range of
  JavaScript's code units). Objects used as dictionaries
  (\<^verbatim>\<open>Record\<close> types) are modelled as partial maps, that is, without the
  properties every JavaScript object inherits from \<^verbatim>\<open>Object.prototype\<close>.
\<close>

datatype jsnum = Fin rat | PInf | NInf | NaN

fun isNaN :: "jsnum \<Rightarrow> bool" where
  "isNaN NaN = True"
| "isNaN _ = False"

fun js_neg :: "jsnum \<Rightarrow> jsnum" where
  "js_neg (Fin a) = Fin (- a)"
| "js_neg PInf = NInf"
| "js_neg NInf = PInf"
| "js_neg NaN = NaN"

fun js_add :: "jsnum \<Rightarrow> jsnum \<Rightarrow> jsnum" where
  "js_add NaN _ = NaN"
| "js_add _ NaN = NaN"
| "js_add (Fin a) (Fin b) = Fin (a + b)"
| "js_add PInf NInf = NaN"
| "js_add NInf PInf = NaN"
| "js_add PInf _ = PInf"
| "js_add _ PInf = PInf"
| "js_add NInf _ = NInf"
| "js_add _ NInf = NInf"

definition js_sub :: "jsnum \<Rightarrow> jsnum \<Rightarrow> jsnum" where
  "js_sub a b = js_add a (js_neg b)"

text \<open>The sign of a number that is not \<^verbatim>\<open>NaN\<close>: \<open>-1\<close>, \<open>0\<close> or \<open>1\<close>.\<close>

fun js_sgn :: "jsnum \<Rightarrow> int" where
  "js_sgn (Fin a) = (if a < 0 then - 1 else if a = 0 then 0 else 1)"
| "js_sgn PInf = 1"
| "js_sgn NInf = - 1"
| "js_sgn NaN = 0"

definition inf_of_sign :: "int \<Rightarrow> jsnum" where
  "inf_of_sign s = (if s < 0 then NInf else PInf)"

fun js_mul :: "jsnum \<Rightarrow> jsnum \<Rightarrow> jsnum" where
  "js_mul NaN _ = NaN"
| "js_mul _ NaN = NaN"
| "js_mul (Fin a) (Fin b) = Fin (a * b)"
| "js_mul a b =
     (if js_sgn a = 0 \<or> js_sgn b = 0 then NaN else inf_of_sign (js_sgn a * js_sgn b))"

fun js_div :: "jsnum \<Rightarrow> jsnum \<Rightarrow> jsnum" where
  "js_div NaN _ = NaN"
| "js_div _ NaN = NaN"
| "js_div (Fin a) (Fin b) =
     (if b = 0 then (if a = 0 then NaN else inf_of_sign (js_sgn (Fin a))) else Fin (a / b))"
| "js_div (Fin a) _ = Fin 0"
| "js_div a (Fin b) = inf_of_sign (js_sgn a * (if b < 0 then - 1 else 1))"
| "js_div _ _ = NaN"

text \<open>\<^verbatim>\<open>a <= b\<close> and \<^verbatim>\<open>a > 0\<close>; every comparison with \<^verbatim>\<open>NaN\<close> is false.\<close>

fun js_le :: "jsnum \<Rightarrow> jsnum \<Rightarrow> bool" where
  "js_le NaN _ = False"
| "js_le _ NaN = False"
| "js_le (Fin a) (Fin b) = (a \<le> b)"
| "js_le NInf _ = True"
| "js_le _ PInf = True"
| "js_le _ _ = False"

definition js_pos :: "jsnum \<Rightarrow> bool" where
  "js_pos a = (js_sgn a = 1)"

section \<open>Characters and strings\<close>

definition DQ :: char where
  "DQ = CHR 0x22"

definition isDigit :: "char \<Rightarrow> bool" where
  "isDigit c = (c \<in> set ''0123456789'')"

definition isLetter :: "char \<Rightarrow> bool" where
  "isLetter c = (c \<in> set ''abcdefghijklmnopqrstuvwxyzABCDEFGHIJKLMNOPQRSTUVWXYZ'')"

text \<open>White space and line terminators of JavaScript in the Latin-1 range
  (\<^verbatim>\<open>\s\<close>, \<^verbatim>\<open>trim\<close>, the leading white space of \<^verbatim>\<open>parseInt\<close>).\<close>

definition isSpace :: "char \<Rightarrow> bool" where
  "isSpace c = (c \<in> set [CHR 0x09, CHR 0x0A, CHR 0x0B, CHR 0x0C, CHR 0x0D, CHR 0x20, CHR 0xA0])"

definition isLineTerminator :: "char \<Rightarrow> bool" where
  "isLineTerminator c = (c = CHR 0x0A \<or> c = CHR 0x0D)"

text \<open>\<^verbatim>\<open>toLowerCase\<close> on a character; the tokens it is applied to are compared
  with ASCII keywords only.\<close>

definition lowerChar :: "char \<Rightarrow> char" where
  "lowerChar c =
     (if c \<in> set ''ABCDEFGHIJKLMNOPQRSTUVWXYZ'' then char_of (of_char c + (32::nat)) else c)"

definition toLowerCase :: "string \<Rightarrow> string" where
  "toLowerCase s = map lowerChar s"

definition startsWith :: "string \<Rightarrow> string \<Rightarrow> bool" where
  "startsWith s p = (take (length p) s = p)"

definition endsWith :: "string \<Rightarrow> string \<Rightarrow> bool" where
  "endsWith s p = (length p \<le> length s \<and> drop (length s - length p) s = p)"

definition includesChar :: "string \<Rightarrow> char \<Rightarrow> bool" where
  "includesChar s c = (c \<in> set s)"

text \<open>\<^verbatim>\<open>s.replace(c, '')\<close> with a one-character string \<open>c\<close> removes the first
  occurrence only; \<^verbatim>\<open>s.replace(/c/g, '')\<close> removes all of them.\<close>

definition replaceFirst :: "char \<Rightarrow> string \<Rightarrow> string" where
  "replaceFirst c s = remove1 c s"

definition replaceAll :: "char \<Rightarrow> string \<Rightarrow> string" where
  "replaceAll c s = filter (\<lambda>x. x \<noteq> c) s"

definition trim :: "string \<Rightarrow> string" where
  "trim s = rev (dropWhile isSpace (rev (dropWhile isSpace s)))"

text \<open>\<^verbatim>\<open>s.split(c)\<close> with a one-character separator: never empty, \<^verbatim>\<open>''.split(c)\<close>
  is \<^verbatim>\<open>['']\<close>.\<close>

fun splitChar :: "char \<Rightarrow> string \<Rightarrow> string list" where
  "splitChar sep [] = [[]]"
| "splitChar sep (c # cs) =
     (if c = sep then [] # splitChar sep cs
      else (case splitChar sep cs of p # ps \<Rightarrow> (c # p) # ps | [] \<Rightarrow> [[c]]))"

text \<open>\<^verbatim>\<open>xs[i]\<close> on an array: \<^verbatim>\<open>undefined\<close> out of range.\<close>

definition nth_opt :: "'a list \<Rightarrow> nat \<Rightarrow> 'a option" where
  "nth_opt xs i = (if i < length xs then Some (xs ! i) else None)"

subsection \<open>Reading numbers\<close>

definition digitVal :: "char \<Rightarrow> nat" where
  "digitVal c = of_char c - 48"

definition hexVal :: "char \<Rightarrow> nat" where
  "hexVal c =
     (if isDigit c then of_char c - 48
      else if c \<in> set ''abcdef'' then of_char c - 87
      else of_char c - 55)"

definition isHexDigit :: "char \<Rightarrow> bool" where
  "isHexDigit c = (isDigit c \<or> c \<in> set ''abcdefABCDEF'')"

definition digitsVal :: "nat \<Rightarrow> (char \<Rightarrow> nat) \<Rightarrow> string \<Rightarrow> nat" where
  "digitsVal radix dv ds = foldl (\<lambda>acc c. acc * radix + dv c) 0 ds"

text \<open>The sign prefix read by \<^verbatim>\<open>parseInt\<close>, \<^verbatim>\<open>parseFloat\<close> and \<^verbatim>\<open>Number\<close>.\<close>

definition readSign :: "string \<Rightarrow> bool \<times> string" where
  "readSign s =
     (case s of
        c # cs \<Rightarrow> (if c = CHR ''-'' then (True, cs) else if c = CHR ''+'' then (False, cs) else (False, s))
      | [] \<Rightarrow> (False, s))"

definition signed :: "bool \<Rightarrow> nat \<Rightarrow> jsnum" where
  "signed neg n = Fin (if neg then - of_nat n else of_nat n)"

text \<open>\<^verbatim>\<open>parseInt(s, 10)\<close>: leading white space, a sign, the longest run of decimal
  digits; \<^verbatim>\<open>NaN\<close> when there is no digit.\<close>

definition parseInt10 :: "string \<Rightarrow> jsnum" where
  "parseInt10 s =
     (let (neg, r) = readSign (dropWhile isSpace s);
          ds = takeWhile isDigit r
      in if ds = [] then NaN else signed neg (digitsVal 10 digitVal ds))"

text \<open>\<^verbatim>\<open>parseInt(s)\<close> without a radix: as above, but a \<^verbatim>\<open>0x\<close> prefix selects
  radix 16.\<close>

definition parseInt :: "string \<Rightarrow> jsnum" where
  "parseInt s =
     (let (neg, r) = readSign (dropWhile isSpace s)
      in if startsWith r ''0x'' \<or> startsWith r ''0X''
         then (let ds = takeWhile isHexDigit (drop 2 r)
               in if ds = [] then NaN else signed neg (digitsVal 16 hexVal ds))
         else (let ds = takeWhile isDigit r
               in if ds = [] then NaN else signed neg (digitsVal 10 digitVal ds)))"

text \<open>\<^verbatim>\<open>parseInt(x)\<close> where \<open>x\<close> may be \<^verbatim>\<open>undefined\<close> (a missing array element).\<close>

definition parseInt10_opt :: "string option \<Rightarrow> jsnum" where
  "parseInt10_opt x = (case x of None \<Rightarrow> NaN | Some s \<Rightarrow> parseInt10 s)"

definition parseInt_opt :: "string option \<Rightarrow> jsnum" where
  "parseInt_opt x = (case x of None \<Rightarrow> NaN | Some s \<Rightarrow> parseInt s)"

text \<open>The longest prefix that is a decimal literal (\<^verbatim>\<open>StrDecimalLiteral\<close>), with its
  value and the rest of the string.\<close>

definition readExponent :: "string \<Rightarrow> int \<times> string" where
  "readExponent s =
     (case s of
        c # cs \<Rightarrow>
          (if c = CHR ''e'' \<or> c = CHR ''E''
           then (let (neg, r) = readSign cs; ds = takeWhile isDigit r
                 in if ds = [] then (0, s)
                    else ((if neg then - int (digitsVal 10 digitVal ds) else int (digitsVal 10 digitVal ds)),
                          dropWhile isDigit r))
           else (0, s))
      | [] \<Rightarrow> (0, s))"

definition scale10 :: "rat \<Rightarrow> int \<Rightarrow> rat" where
  "scale10 m e = (if 0 \<le> e then m * 10 ^ nat e else m / 10 ^ nat (- e))"

definition readDecimal :: "string \<Rightarrow> (jsnum \<times> string) option" where
  "readDecimal s =
     (let (neg, r) = readSign s
      in if startsWith r ''Infinity'' then Some ((if neg then NInf else PInf), drop 8 r)
         else
           (let ip = takeWhile isDigit r;
                r1 = dropWhile isDigit r;
                hasDot = (r1 \<noteq> [] \<and> hd r1 = CHR ''.'');
                fp = (if hasDot then takeWhile isDigit (tl r1) else []);
                r2 = (if hasDot then dropWhile isDigit (tl r1) else r1)
            in if ip = [] \<and> fp = [] then None
               else
                 (let (e, r3) = readExponent r2;
                      m = of_nat (digitsVal 10 digitVal (ip @ fp)) / 10 ^ length fp;
                      v = scale10 m e
                  in Some (Fin (if neg then - v else v), r3))))"

text \<open>\<^verbatim>\<open>parseFloat(s)\<close>.\<close>

definition parseFloat :: "string \<Rightarrow> jsnum" where
  "parseFloat s = (case readDecimal (dropWhile isSpace s) of None \<Rightarrow> NaN | Some (v, _) \<Rightarrow> v)"

text \<open>\<^verbatim>\<open>Number(s)\<close> on a string: the whole trimmed string must be a numeric literal;
  the empty string is \<open>0\<close>; \<^verbatim>\<open>0x\<close>, \<^verbatim>\<open>0o\<close> and \<^verbatim>\<open>0b\<close> literals carry no sign.\<close>

definition radixLiteral :: "string \<Rightarrow> jsnum option" where
  "radixLiteral t =
     (if startsWith (toLowerCase (take 2 t)) ''0x''
      then (if drop 2 t \<noteq> [] \<and> list_all isHexDigit (drop 2 t)
            then Some (Fin (of_nat (digitsVal 16 hexVal (drop 2 t)))) else Some NaN)
      else if startsWith (toLowerCase (take 2 t)) ''0o''
      then (if drop 2 t \<noteq> [] \<and> list_all (\<lambda>c. c \<in> set ''01234567'') (drop 2 t)
            then Some (Fin (of_nat (digitsVal 8 digitVal (drop 2 t)))) else Some NaN)
      else if startsWith (toLowerCase (take 2 t)) ''0b''
      then (if drop 2 t \<noteq> [] \<and> list_all (\<lambda>c. c \<in> set ''01'') (drop 2 t)
            then Some (Fin (of_nat (digitsVal 2 digitVal (drop 2 t)))) else Some NaN)
      else None)"

definition Number :: "string \<Rightarrow> jsnum" where
  "Number s =
     (let t = trim s
      in if t = [] then Fin 0
         else (case radixLiteral t of
                 Some v \<Rightarrow> v
               | None \<Rightarrow> (case readDecimal t of Some (v, []) \<Rightarrow> v | _ \<Rightarrow> NaN)))"

section \<open>The lexer\<close>

text \<open>\<^verbatim>\<open>source.replace(/%%.*$/gm, '')\<close>: each \<^verbatim>\<open>%%\<close> is removed together with
  the rest of its line; the line terminator stays.\<close>

function stripComments :: "string \<Rightarrow> string" where
  "stripComments [] = []"
| "stripComments [c] = [c]"
| "stripComments (a # b # cs) =
     (if a = CHR ''%'' \<and> b = CHR ''%''
      then stripComments (dropWhile (\<lambda>x. \<not> isLineTerminator x) cs)
      else a # stripComments (b # cs))"
  by pat_completeness auto
termination
  by (relation "measure length") (auto intro: le_less_trans [OF length_dropWhile_le])

text \<open>The character classes of \<^verbatim>\<open>REGEX_TOKEN\<close>:
  \<^verbatim>\<open>/([{}|,\[\]=():])|("[^"]*")|(\$[a-zA-Z_][a-zA-Z0-9_]*)|([a-zA-Z0-9_.\-+#]+)/g\<close>.\<close>

definition isPunct :: "char \<Rightarrow> bool" where
  "isPunct c = (c \<in> set ''{}|,[]=():'')"

definition isIdentStart :: "char \<Rightarrow> bool" where
  "isIdentStart c = (isLetter c \<or> c = CHR ''_'')"

definition isIdentChar :: "char \<Rightarrow> bool" where
  "isIdentChar c = (isLetter c \<or> isDigit c \<or> c = CHR ''_'')"

definition isSymbolChar :: "char \<Rightarrow> bool" where
  "isSymbolChar c = (isLetter c \<or> isDigit c \<or> c \<in> set ''_.-+#'')"

text \<open>\<^verbatim>\<open>text.match(REGEX_TOKEN) || []\<close>: at each position the four alternatives are
  tried in order; a character at which none matches is skipped. A double quote
  with no closing quote after it starts no token.\<close>

function tokenize :: "string \<Rightarrow> string list" where
  "tokenize [] = []"
| "tokenize (c # cs) =
     (if isPunct c then [c] # tokenize cs
      else if c = DQ \<and> DQ \<in> set cs
      then (c # takeWhile (\<lambda>x. x \<noteq> DQ) cs @ [DQ]) # tokenize (tl (dropWhile (\<lambda>x. x \<noteq> DQ) cs))
      else if c = CHR ''$'' \<and> cs \<noteq> [] \<and> isIdentStart (hd cs)
      then (c # takeWhile isIdentChar cs) # tokenize (dropWhile isIdentChar cs)
      else if isSymbolChar c
      then (c # takeWhile isSymbolChar cs) # tokenize (dropWhile isSymbolChar cs)
      else tokenize cs)"
  by pat_completeness auto
termination
proof (relation "measure length", goal_cases)
  case 1
  show ?case by simp
next
  case (2 c cs)
  show ?case by simp
next
  case (3 c cs)
  have "length (tl (dropWhile (\<lambda>x. x \<noteq> DQ) cs)) \<le> length cs"
    using length_dropWhile_le [of "\<lambda>x. x \<noteq> DQ" cs] by simp
  then show ?case by simp
next
  case (4 c cs)
  show ?case using length_dropWhile_le [of isIdentChar cs] by simp
next
  case (5 c cs)
  show ?case using length_dropWhile_le [of isSymbolChar cs] by simp
next
  case (6 c cs)
  show ?case by simp
qed

section \<open>Splitting event tokens\<close>

text \<open>\<^verbatim>\<open>token.split(/(?<!:[\d])\./)\<close>: the token is cut at every dot that is not
  directly preceded by a colon and one digit. The two characters before the current
  position are carried along.\<close>

fun splitDotsFrom :: "char option \<Rightarrow> char option \<Rightarrow> string \<Rightarrow> string list" where
  "splitDotsFrom p2 p1 [] = [[]]"
| "splitDotsFrom p2 p1 (c # cs) =
     (if c = CHR ''.'' \<and> \<not> (p2 = Some CHR '':'' \<and> (case p1 of Some d \<Rightarrow> isDigit d | None \<Rightarrow> False))
      then [] # splitDotsFrom p1 (Some c) cs
      else (case splitDotsFrom p1 (Some c) cs of p # ps \<Rightarrow> (c # p) # ps | [] \<Rightarrow> [[c]]))"

definition splitDots :: "string \<Rightarrow> string list" where
  "splitDots s = splitDotsFrom None None s"

text \<open>\<^verbatim>\<open>inner.split(/\s+/)\<close>: cut at every maximal run of white space.\<close>

function splitSpaces :: "string \<Rightarrow> string list" where
  "splitSpaces [] = [[]]"
| "splitSpaces (c # cs) =
     (if isSpace c then [] # splitSpaces (dropWhile isSpace cs)
      else (case splitSpaces cs of p # ps \<Rightarrow> (c # p) # ps | [] \<Rightarrow> [[c]]))"
  by pat_completeness auto
termination
  by (relation "measure length") (auto intro: le_less_trans [OF length_dropWhile_le])

section \<open>Pitch syntax\<close>

text \<open>\<^verbatim>\<open>REGEX_PITCH = /^([a-g])(qs|qf|tqs|tqf|x|bb|b|#|n)*(-?\d+)?$/i\<close>. The accidental
  group is matched greedily, its alternatives in the order written; the group's capture
  is the text of its last repetition. Accidentals contain neither digits nor a minus
  sign, and the only choice between alternatives (\<^verbatim>\<open>bb\<close> against \<^verbatim>\<open>b\<close>) leads to the
  same positions, so the first alternative that fits is the one the match keeps.\<close>

definition accidentals :: "string list" where
  "accidentals = [''qs'', ''qf'', ''tqs'', ''tqf'', ''x'', ''bb'', ''b'', ''#'', ''n'']"

definition accidentalAt :: "string \<Rightarrow> string option" where
  "accidentalAt s = find (\<lambda>a. toLowerCase (take (length a) s) = a) accidentals"

function matchAccidentals :: "string option \<Rightarrow> string \<Rightarrow> string option \<times> string" where
  "matchAccidentals captured s =
     (case accidentalAt s of
        None \<Rightarrow> (captured, s)
      | Some a \<Rightarrow>
          (if length a \<le> length s \<and> a \<noteq> []
           then matchAccidentals (Some (take (length a) s)) (drop (length a) s)
           else (captured, s)))"
  by pat_completeness auto
termination
  by (relation "measure (\<lambda>(l, s). length s)") (auto simp: neq_Nil_conv)

declare matchAccidentals.simps [simp del]

text \<open>\<^verbatim>\<open>(-?\d+)?$\<close> on the rest of the string: \<open>None\<close> when the rest does not fit,
  otherwise the capture (\<open>None\<close> inside for an absent octave).\<close>

definition matchOctave :: "string \<Rightarrow> string option option" where
  "matchOctave r =
     (if r = [] then Some None
      else (let ds = (if hd r = CHR ''-'' then tl r else r)
            in if ds \<noteq> [] \<and> list_all isDigit ds then Some (Some r) else None))"

text \<open>The three captures of a successful match: step, accidental, octave.\<close>

definition matchPitch :: "string \<Rightarrow> (char \<times> string option \<times> string option) option" where
  "matchPitch s =
     (case s of
        [] \<Rightarrow> None
      | c # cs \<Rightarrow>
          (if lowerChar c \<in> set ''abcdefg''
           then (let (acc, r) = matchAccidentals None cs
                 in (case matchOctave r of
                       None \<Rightarrow> None
                     | Some oct \<Rightarrow> Some (c, acc, oct)))
           else None))"

definition baseMap :: "char \<Rightarrow> rat" where
  "baseMap step =
     (if step = CHR ''c'' then 0 else if step = CHR ''d'' then 2 else if step = CHR ''e'' then 4
      else if step = CHR ''f'' then 5 else if step = CHR ''g'' then 7 else if step = CHR ''a'' then 9
      else 11)"

text \<open>The semitone of a step with its accidental capture (the four \<^verbatim>\<open>if (acc === ...)\<close>
  of \<^verbatim>\<open>parsePitchToMidi\<close>).\<close>

definition semitoneOf :: "char \<Rightarrow> string \<Rightarrow> rat" where
  "semitoneOf step acc =
     (let semitone = baseMap step;
          semitone = (if acc = ''#'' then semitone + 1 else semitone);
          semitone = (if acc = ''b'' then semitone - 1 else semitone);
          semitone = (if acc = ''x'' then semitone + 2 else semitone);
          semitone = (if acc = ''bb'' then semitone - 2 else semitone)
      in semitone)"

text \<open>\<^verbatim>\<open>parsePitchToMidi(pitch, lastOctave)\<close> returns \<^verbatim>\<open>{ midi, octave }\<close>.\<close>

definition parsePitchToMidi :: "string \<Rightarrow> jsnum \<Rightarrow> jsnum \<times> jsnum" where
  "parsePitchToMidi pitch lastOctave =
     (case matchPitch pitch of
        None \<Rightarrow> (Fin 60, Fin 4)
      | Some (m1, m2, octStr) \<Rightarrow>
          (let step = lowerChar m1;
               acc = (case m2 of None \<Rightarrow> [] | Some a \<Rightarrow> a);
               octave = (case octStr of Some os \<Rightarrow> parseInt10 os | None \<Rightarrow> lastOctave);
               semitone = semitoneOf step acc
           in (js_add (js_mul (js_add octave (Fin 1)) (Fin 12)) (Fin semitone), octave)))"

text \<open>\<^verbatim>\<open>parseDurationVal(str)\<close>.\<close>

definition parseDurationVal :: "string \<Rightarrow> jsnum" where
  "parseDurationVal str =
     (let dotCount = length (filter (\<lambda>c. c = CHR ''.'') str);
          clean = replaceAll CHR ''.'' str;
          base = js_div (Fin 4) (parseInt10 clean);
          val = base;
          val = (if dotCount = 1 then js_mul val (Fin (3 / 2)) else val);
          val = (if dotCount = 2 then js_mul val (Fin (7 / 4)) else val)
      in val)"

section \<open>Data model\<close>

text \<open>The types of \<^verbatim>\<open>types.ts\<close> and the constants of \<^verbatim>\<open>constants.ts\<close>. A pitch
  reference \<^verbatim>\<open>"midi:<n>"\<close> is represented by the number \<open>n\<close>.\<close>

record OmniMeta =
  title :: string
  composer :: string
  tempo :: jsnum
  timeSignature :: "jsnum \<times> jsnum"
  key :: string
  meta_style :: string

datatype DrumMapValue = Midi jsnum | PosMidi jsnum jsnum

datatype arg = Str string | Num jsnum

record Attribute =
  name :: string
  args :: "arg list"

record InstrumentDef =
  inst_id :: string
  inst_label :: string
  inst_group :: "string option"
  inst_style :: string
  inst_clef :: "string option"
  inst_transpose :: "jsnum option"
  inst_tuning :: "string list option"
  inst_map :: "(string \<times> DrumMapValue) list option"
  inst_patch :: "string option"
  inst_vol :: "jsnum option"
  inst_pan :: "jsnum option"

datatype EventType = Note | Rest | Chord

record NoteEvent =
  kind :: EventType
  pitches :: "jsnum list"
  duration :: jsnum
  tickStart :: jsnum
  tickEnd :: jsnum
  velocity :: jsnum
  instrumentId :: string
  voiceId :: string
  modifiers :: "Attribute list"

record CompiledScore =
  meta :: OmniMeta
  instruments :: "InstrumentDef list"
  timeline :: "NoteEvent list"
  durationTicks :: jsnum

record VoiceCursor =
  octave :: jsnum
  cur_duration :: jsnum
  tick :: jsnum

record MacroDef =
  params :: "string list"
  body :: string

definition TICKS_PER_QUARTER :: jsnum where
  "TICKS_PER_QUARTER = Fin 1920"

definition GM_DRUM_MAP :: "(string \<times> DrumMapValue) list" where
  "GM_DRUM_MAP =
     [(''k'', Midi (Fin 36)), (''s'', Midi (Fin 38)), (''ss'', Midi (Fin 37)), (''h'', Midi (Fin 42)),
      (''ho'', Midi (Fin 46)), (''ph'', Midi (Fin 44)), (''c'', Midi (Fin 49)), (''r'', Midi (Fin 51)),
      (''rb'', Midi (Fin 53)), (''t1'', Midi (Fin 50)), (''t2'', Midi (Fin 47)), (''t3'', Midi (Fin 43))]"

definition GUITAR_STD_TUNING :: "string list" where
  "GUITAR_STD_TUNING = [''E2'', ''A2'', ''D3'', ''G3'', ''B3'', ''E4'']"

definition STANDARD :: string where "STANDARD = ''standard''"
definition TAB :: string where "TAB = ''tab''"
definition GRID :: string where "GRID = ''grid''"

section \<open>The parser object\<close>

text \<open>The fields of class \<^verbatim>\<open>OmniParser\<close>. A method that mutates the object takes the
  state and returns the new one.\<close>

record parser =
  source :: string
  tokens :: "string list"
  tokenIndex :: nat
  score :: CompiledScore
  macros :: "string \<rightharpoonup> MacroDef"
  currentGroup :: "string option"
  globalCursors :: "string \<rightharpoonup> (string \<rightharpoonup> VoiceCursor)"

text \<open>A method either returns, throws, or runs forever: \<open>None\<close> is a run that does
  not return, \<open>Some (Inl e)\<close> an exception, \<open>Some (Inr x)\<close> a result.\<close>

datatype error = TypeError

type_synonym 'a result = "(error + 'a) option"

definition rbind :: "'a result \<Rightarrow> ('a \<Rightarrow> 'b result) \<Rightarrow> 'b result" where
  "rbind m f = (case m of None \<Rightarrow> None | Some (Inl e) \<Rightarrow> Some (Inl e) | Some (Inr x) \<Rightarrow> f x)"

lemma rbind_simps [simp]:
  "rbind None f = None"
  "rbind (Some (Inl e)) f = Some (Inl e)"
  "rbind (Some (Inr x)) f = f x"
  by (simp_all add: rbind_def)

lemma rbind_as_bind:
  "rbind m f = Option.bind m (\<lambda>r. case r of Inl e \<Rightarrow> Some (Inl e) | Inr x \<Rightarrow> f x)"
  by (cases m) (auto simp: rbind_def split: sum.splits)

lemma rbind_mono [partial_function_mono]:
  assumes mf: "mono_option B" and mg: "\<And>y. mono_option (\<lambda>f. C y f)"
  shows "mono_option (\<lambda>f. rbind (B f) (\<lambda>y. C y f))"
  unfolding rbind_as_bind
proof (intro bind_mono mf)
  fix r
  show "mono_option (\<lambda>f. case r of Inl e \<Rightarrow> Some (Inl e) | Inr x \<Rightarrow> C x f)"
    by (cases r) (simp_all add: option.const_mono mg)
qed

definition initParser :: "string \<Rightarrow> parser" where
  "initParser code =
     \<lparr> source = code, tokens = [], tokenIndex = 0,
       score = \<lparr> meta = \<lparr> title = ''Untitled'', composer = ''Unknown'', tempo = Fin 120,
                          timeSignature = (Fin 4, Fin 4), key = ''C'', meta_style = ''standard'' \<rparr>,
                 instruments = [], timeline = [], durationTicks = Fin 0 \<rparr>,
       macros = Map.empty, currentGroup = None, globalCursors = Map.empty \<rparr>"

text \<open>\<^verbatim>\<open>peek\<close>, \<^verbatim>\<open>consume\<close> and \<^verbatim>\<open>match\<close>: past the end of the token array both
  \<^verbatim>\<open>peek\<close> and \<^verbatim>\<open>consume\<close> give the empty string, and \<^verbatim>\<open>consume\<close> still advances
  the index.\<close>

definition peek :: "parser \<Rightarrow> string" where
  "peek st = (case nth_opt (tokens st) (tokenIndex st) of Some t \<Rightarrow> t | None \<Rightarrow> [])"

definition consume :: "parser \<Rightarrow> string \<times> parser" where
  "consume st = (peek st, st\<lparr>tokenIndex := tokenIndex st + 1\<rparr>)"

definition match :: "string \<Rightarrow> parser \<Rightarrow> bool \<times> parser" where
  "match val st = (if peek st = val then (True, snd (consume st)) else (False, st))"

lemma peek_nonempty_in_range: "peek st \<noteq> [] \<Longrightarrow> tokenIndex st < length (tokens st)"
  by (auto simp: peek_def nth_opt_def split: if_splits)

section \<open>Phase 1: meta\<close>

text \<open>The inner loop of \<^verbatim>\<open>parseMetaBlock\<close>,
  \<^verbatim>\<open>while (!val.endsWith(']')) val += this.consume();\<close>.\<close>

partial_function (option) metaListValue :: "string \<Rightarrow> parser \<Rightarrow> (string \<times> parser) result" where
  "metaListValue val st =
     (if \<not> endsWith val '']'' then metaListValue (val @ fst (consume st)) (snd (consume st))
      else Some (Inr (val, st)))"

declare metaListValue.simps [code]

text \<open>The assignments of one \<^verbatim>\<open>key: value\<close> entry (the chain of \<^verbatim>\<open>if (lowerKey === ...)\<close>).\<close>

definition setMeta :: "string \<Rightarrow> string \<Rightarrow> OmniMeta \<Rightarrow> OmniMeta" where
  "setMeta lowerKey cleanVal m =
     (if lowerKey = ''title'' then m\<lparr>title := cleanVal\<rparr>
      else if lowerKey = ''composer'' then m\<lparr>composer := cleanVal\<rparr>
      else if lowerKey = ''tempo'' then m\<lparr>tempo := parseInt10 cleanVal\<rparr>
      else if lowerKey = ''key'' then m\<lparr>key := cleanVal\<rparr>
      else if lowerKey = ''time''
      then (let parts = splitChar CHR ''/'' cleanVal;
                n = parseInt10_opt (nth_opt parts 0);
                d = parseInt10_opt (nth_opt parts 1)
            in if \<not> isNaN n \<and> \<not> isNaN d then m\<lparr>timeSignature := (n, d)\<rparr> else m)
      else m)"

partial_function (option) metaEntries :: "parser \<Rightarrow> parser result" where
  "metaEntries st =
     (if peek st \<noteq> ''}'' \<and> tokenIndex st < length (tokens st)
      then (let key = replaceFirst CHR '':'' (fst (consume st));
                st1 = snd (consume st);
                st2 = (if peek st1 = '':'' then snd (consume st1) else st1);
                val0 = fst (consume st2);
                st3 = snd (consume st2)
            in rbind (if startsWith val0 ''['' then metaListValue val0 st3 else Some (Inr (val0, st3)))
                 (\<lambda>r. let val = fst r;
                          st4 = snd r;
                          cleanVal = replaceAll DQ val;
                          lowerKey = toLowerCase key;
                          st5 = st4\<lparr>score := (score st4)\<lparr>meta := setMeta lowerKey cleanVal (meta (score st4))\<rparr>\<rparr>;
                          st6 = (if peek st5 = '','' then snd (consume st5) else st5)
                      in metaEntries st6))
      else Some (Inr st))"

declare metaEntries.simps [code]

definition parseMetaBlock :: "parser \<Rightarrow> parser result" where
  "parseMetaBlock st =
     (let st1 = snd (consume st)
      in if \<not> fst (match ''{'' st1) then Some (Inr (snd (match ''{'' st1)))
         else rbind (metaEntries (snd (match ''{'' st1))) (\<lambda>st2. Some (Inr (snd (consume st2)))))"

section \<open>Phase 2: definitions\<close>

text \<open>\<^verbatim>\<open>bodyTokens.join(' ')\<close>.\<close>

fun joinSpace :: "string list \<Rightarrow> string" where
  "joinSpace [] = []"
| "joinSpace [x] = x"
| "joinSpace (x # y # ys) = x @ '' '' @ joinSpace (y # ys)"

text \<open>The brace-counting loop of \<^verbatim>\<open>parseMacroDef\<close>.\<close>

function macroBody :: "int \<Rightarrow> string list \<Rightarrow> parser \<Rightarrow> string list \<times> parser" where
  "macroBody balance bodyTokens st =
     (if balance > 0 \<and> tokenIndex st < length (tokens st)
      then (let t = fst (consume st);
                st1 = snd (consume st);
                balance1 = (if t = ''{'' then balance + 1 else if t = ''}'' then balance - 1 else balance);
                bodyTokens1 = (if balance1 > 0 then bodyTokens @ [t] else bodyTokens)
            in macroBody balance1 bodyTokens1 st1)
      else (bodyTokens, st))"
  by pat_completeness auto
termination
  by (relation "measure (\<lambda>(b, ts, st). length (tokens st) - tokenIndex st)")
     (auto simp: consume_def)

declare macroBody.simps [simp del]

text \<open>A signature token that includes \<^verbatim>\<open>(\<close> is split there, so it has at least two
  parts; the last case of the \<open>case\<close> cannot occur.\<close>

definition parseMacroDef :: "parser \<Rightarrow> parser" where
  "parseMacroDef st =
     (let st1 = snd (consume st);
          sig = fst (consume st1);
          st2 = snd (consume st1);
          (nm, ps) =
             (if includesChar sig CHR ''(''
              then (case splitChar CHR ''('' sig of
                      p0 # p1 # _ \<Rightarrow> (p0, map trim (splitChar CHR '','' (replaceFirst CHR '')'' p1)))
                    | _ \<Rightarrow> (sig, []))
              else (sig, []));
          st3 = snd (match ''='' st2)
      in if \<not> fst (match ''{'' st3) then snd (match ''{'' st3)
         else (let (bodyTokens, st4) = macroBody 1 [] (snd (match ''{'' st3))
               in st4\<lparr>macros := (macros st4)(nm \<mapsto> \<lparr>params = ps, body = joinSpace bodyTokens\<rparr>)\<rparr>))"

text \<open>One \<^verbatim>\<open>key=value\<close> attribute of a \<^verbatim>\<open>def\<close>.\<close>

definition setAttr :: "string \<Rightarrow> string \<Rightarrow> InstrumentDef \<Rightarrow> InstrumentDef" where
  "setAttr k v inst =
     (if k = ''style'' then inst\<lparr>inst_style := v\<rparr>
      else if k = ''clef'' then inst\<lparr>inst_clef := Some v\<rparr>
      else if k = ''transpose'' then inst\<lparr>inst_transpose := Some (parseInt10 v)\<rparr>
      else if k = ''patch'' then inst\<lparr>inst_patch := Some v\<rparr>
      else if k = ''vol'' then inst\<lparr>inst_vol := Some (parseFloat v)\<rparr>
      else if k = ''pan'' then inst\<lparr>inst_pan := Some (parseFloat v)\<rparr>
      else if k = ''map'' \<and> v = ''gm_kit'' then inst\<lparr>inst_map := Some GM_DRUM_MAP\<rparr>
      else inst)"

definition reserved :: "string list" where
  "reserved = [''def'', ''group'', ''measure'', ''meta'', ''macro'', ''}'', ''{'']"

text \<open>The \<^verbatim>\<open>while (true)\<close> loop of \<^verbatim>\<open>parseDef\<close>. An attribute that includes \<^verbatim>\<open>=\<close>
  splits into at least two parts; the last case of the \<open>case\<close> cannot occur.\<close>

function defAttrs :: "InstrumentDef \<Rightarrow> parser \<Rightarrow> InstrumentDef \<times> parser" where
  "defAttrs inst st =
     (let next = peek st
      in if toLowerCase next \<in> set reserved \<or> next = [] then (inst, st)
         else (let attr = fst (consume st);
                   st1 = snd (consume st)
               in if \<not> includesChar attr CHR ''='' then (inst, st1)
                  else (case splitChar CHR ''='' attr of
                          k0 # v0 # _ \<Rightarrow> defAttrs (setAttr (toLowerCase k0) (replaceAll DQ v0) inst) st1
                        | _ \<Rightarrow> (inst, st1))))"
  by pat_completeness auto
termination
  by (relation "measure (\<lambda>(i, st). length (tokens st) - tokenIndex st)")
     (auto simp: consume_def dest: peek_nonempty_in_range)

declare defAttrs.simps [simp del]

definition parseDef :: "parser \<Rightarrow> parser" where
  "parseDef st =
     (let st1 = snd (consume st);
          ident = fst (consume st1);
          st2 = snd (consume st1);
          lbl = (if startsWith (peek st2) [DQ] then replaceAll DQ (fst (consume st2)) else ident);
          st3 = (if startsWith (peek st2) [DQ] then snd (consume st2) else st2);
          inst = \<lparr> inst_id = ident, inst_label = lbl, inst_group = currentGroup st3,
                   inst_style = STANDARD, inst_clef = None, inst_transpose = None,
                   inst_tuning = None, inst_map = None, inst_patch = None,
                   inst_vol = None, inst_pan = None \<rparr>;
          (inst1, st4) = defAttrs inst st3
      in st4\<lparr>score := (score st4)\<lparr>instruments := instruments (score st4) @ [inst1]\<rparr>,
              globalCursors := (globalCursors st4)(ident \<mapsto> Map.empty)\<rparr>)"

text \<open>\<^verbatim>\<open>parseGroup\<close>: its first loop, \<^verbatim>\<open>while (this.peek() !== '{') this.consume();\<close>,
  has no test for the end of the tokens.\<close>

partial_function (option) skipToBrace :: "parser \<Rightarrow> parser result" where
  "skipToBrace st =
     (if peek st \<noteq> ''{'' then skipToBrace (snd (consume st)) else Some (Inr st))"

declare skipToBrace.simps [code]

partial_function (option) groupBody :: "parser \<Rightarrow> parser result" where
  "groupBody st =
     (if peek st \<noteq> ''}'' \<and> tokenIndex st < length (tokens st)
      then (if toLowerCase (peek st) = ''def'' then groupBody (parseDef st)
            else groupBody (snd (consume st)))
      else Some (Inr st))"

declare groupBody.simps [code]

definition parseGroup :: "parser \<Rightarrow> parser result" where
  "parseGroup st =
     (let st1 = snd (consume st);
          st2 = snd (consume st1)
      in rbind (skipToBrace st2)
           (\<lambda>st3. let st4 = snd (consume st3);
                      st5 = st4\<lparr>currentGroup := Some ''Group''\<rparr>
                  in rbind (groupBody st5)
                       (\<lambda>st6. Some (Inr ((snd (consume st6))\<lparr>currentGroup := None\<rparr>)))))"

section \<open>Phase 3: events\<close>

text \<open>\<^verbatim>\<open>xs[i]\<close> with a number as index: defined for an integer within range.\<close>

definition arrayAt :: "'a list \<Rightarrow> jsnum \<Rightarrow> 'a option" where
  "arrayAt xs i =
     (case i of
        Fin r \<Rightarrow> (if 0 \<le> r \<and> r < of_nat (length xs) \<and> of_int \<lfloor>r\<rfloor> = r
                  then Some (xs ! nat \<lfloor>r\<rfloor>) else None)
      | _ \<Rightarrow> None)"

text \<open>\<^verbatim>\<open>resolvePitch(p, inst, cursor, event)\<close> mutates the cursor and the event; both are
  returned. A drum-table entry is used when it is truthy: a pair always, a number when it
  is neither zero nor \<^verbatim>\<open>NaN\<close>.\<close>

definition truthyNum :: "jsnum \<Rightarrow> bool" where
  "truthyNum n = (n \<noteq> Fin 0 \<and> n \<noteq> NaN)"

definition resolvePitch ::
  "string \<Rightarrow> InstrumentDef \<Rightarrow> VoiceCursor \<times> NoteEvent \<Rightarrow> VoiceCursor \<times> NoteEvent" where
  "resolvePitch p inst ce =
     (let cursor = fst ce; event = snd ce
      in if inst_style inst = TAB
         then (let parts = splitChar CHR ''-'' p
               in if length parts = 2
                  then (let fret = parseInt_opt (nth_opt parts 0);
                            str = parseInt_opt (nth_opt parts 1);
                            tuning = (case inst_tuning inst of Some t \<Rightarrow> t | None \<Rightarrow> GUITAR_STD_TUNING)
                        in (case arrayAt tuning (js_sub (Fin (of_nat (length tuning))) str) of
                              None \<Rightarrow> (cursor, event)
                            | Some stringPitch \<Rightarrow>
                                (if stringPitch \<noteq> []
                                 then (cursor, event\<lparr>pitches := pitches event @
                                          [js_add (fst (parsePitchToMidi stringPitch (Fin 4))) fret]\<rparr>)
                                 else (cursor, event))))
                  else (cursor, event))
         else if inst_style inst = GRID
         then (let table = (case inst_map inst of Some t \<Rightarrow> t | None \<Rightarrow> GM_DRUM_MAP)
               in (case map_of table p of
                     None \<Rightarrow> (cursor, event)
                   | Some (PosMidi pos v) \<Rightarrow> (cursor, event\<lparr>pitches := pitches event @ [v]\<rparr>)
                   | Some (Midi v) \<Rightarrow>
                       (if truthyNum v then (cursor, event\<lparr>pitches := pitches event @ [v]\<rparr>)
                        else (cursor, event))))
         else (let (midi, oct) = parsePitchToMidi p (octave cursor)
               in (cursor\<lparr>octave := oct\<rparr>, event\<lparr>pitches := pitches event @ [midi]\<rparr>)))"

text \<open>One modifier string: \<^verbatim>\<open>name\<close> or \<^verbatim>\<open>name(arg,...)\<close>. A string that includes \<^verbatim>\<open>(\<close>
  splits into at least two parts; the last case of the \<open>case\<close> cannot occur.\<close>

definition parseAttribute :: "string \<Rightarrow> Attribute" where
  "parseAttribute s =
     (if includesChar s CHR ''(''
      then (case splitChar CHR ''('' s of
              nm # argStr # _ \<Rightarrow>
                \<lparr> name = nm,
                  args = map (\<lambda>a. if isNaN (Number a) then Str a else Num (Number a))
                           (splitChar CHR '','' (replaceFirst CHR '')'' argStr)) \<rparr>
            | _ \<Rightarrow> \<lparr> name = s, args = [] \<rparr>)
      else \<lparr> name = s, args = [] \<rparr>)"

text \<open>\<^verbatim>\<open>volAttr && typeof volAttr.args[0] === 'number'\<close>, and the velocity it gives.\<close>

definition volOverride :: "Attribute list \<Rightarrow> jsnum option" where
  "volOverride attributes =
     (case find (\<lambda>a. name a = ''vol'' \<or> name a = ''vel'') attributes of
        None \<Rightarrow> None
      | Some volAttr \<Rightarrow> (case args volAttr of Num n # _ \<Rightarrow> Some (js_div n (Fin 127)) | _ \<Rightarrow> None))"

text \<open>\<^verbatim>\<open>this.globalCursors[instId][voiceId]\<close>: reading a voice of an instrument that has
  no cursor table throws.\<close>

definition getCursor :: "parser \<Rightarrow> string \<Rightarrow> string \<Rightarrow> error + VoiceCursor option" where
  "getCursor st instId vId =
     (case globalCursors st instId of None \<Rightarrow> Inl TypeError | Some vm \<Rightarrow> Inr (vm vId))"

definition putCursor :: "string \<Rightarrow> string \<Rightarrow> VoiceCursor \<Rightarrow> parser \<Rightarrow> parser" where
  "putCursor instId vId c st =
     st\<lparr>globalCursors := (globalCursors st)
           (instId \<mapsto> (case globalCursors st instId of Some vm \<Rightarrow> vm | None \<Rightarrow> Map.empty)(vId \<mapsto> c))\<rparr>"

text \<open>The body of \<^verbatim>\<open>parseEvent\<close> between reading the cursor and pushing the event:
  from the token and the voice's cursor it computes the cursor after the event, the
  event, the tick length \<open>ticks\<close> and the flag \<open>isGrace\<close>.\<close>

definition buildEvent ::
  "string \<Rightarrow> InstrumentDef \<Rightarrow> string \<Rightarrow> jsnum \<Rightarrow> jsnum \<Rightarrow> VoiceCursor
     \<Rightarrow> VoiceCursor \<times> NoteEvent \<times> jsnum \<times> bool" where
  "buildEvent token inst vId baseTick relativeTick cursor =
     (let parts = splitDots token;
          core = hd parts;
          attrStrings = tl parts;
          attributes = map parseAttribute attrStrings;
          durSplit = splitChar CHR '':'' core;
          pitchStr = hd durSplit;
          durStr = nth_opt durSplit 1;
          cursor1 = (case durStr of
                       None \<Rightarrow> cursor
                     | Some d \<Rightarrow> (if d \<noteq> [] then cursor\<lparr>cur_duration := parseDurationVal d\<rparr>
                                  else cursor));
          ticks = js_mul (cur_duration cursor1) TICKS_PER_QUARTER;
          event = \<lparr> kind = Note, pitches = [], duration = cur_duration cursor1,
                    tickStart = js_add baseTick relativeTick,
                    tickEnd = js_add (js_add baseTick relativeTick) ticks,
                    velocity = Fin (4 / 5), instrumentId = inst_id inst, voiceId = vId,
                    modifiers = attributes \<rparr>;
          isGrace = list_ex (\<lambda>a. name a = ''grace'') attributes;
          event1 = (if isGrace then event\<lparr>duration := Fin 0, tickEnd := tickStart event\<rparr>
                    else event);
          ce = (if pitchStr = ''r'' then (cursor1, event1\<lparr>kind := Rest\<rparr>)
                else if pitchStr = ''s'' then (cursor1, event1\<lparr>kind := Rest\<rparr>)
                else if startsWith pitchStr ''[''
                then (let inner = filter (\<lambda>c. c \<noteq> CHR ''['' \<and> c \<noteq> CHR '']'') pitchStr;
                          pTokens = splitSpaces inner
                      in fold (\<lambda>p. resolvePitch p inst) pTokens (cursor1, event1\<lparr>kind := Chord\<rparr>))
                else resolvePitch pitchStr inst (cursor1, event1));
          cursor2 = fst ce;
          event2 = snd ce;
          event3 = (case volOverride attributes of
                      Some v \<Rightarrow> event2\<lparr>velocity := v\<rparr>
                    | None \<Rightarrow> event2)
      in (cursor2, event3, ticks, isGrace))"

text \<open>\<^verbatim>\<open>parseEvent(token, inst, voiceId, baseTick, relativeTick, onAdvance)\<close>. Both callers
  pass a callback that adds its argument to the caller's local \<^verbatim>\<open>currentTick\<close>; that
  variable is threaded through as the first component of the state pair. The cursor is
  an object shared with \<^verbatim>\<open>globalCursors\<close>, so its final value is stored back.\<close>

definition parseEvent ::
  "string \<Rightarrow> InstrumentDef \<Rightarrow> string \<Rightarrow> jsnum \<Rightarrow> jsnum \<Rightarrow> jsnum \<times> parser
     \<Rightarrow> error + jsnum \<times> parser" where
  "parseEvent token inst vId baseTick relativeTick cs =
     (let currentTick = fst cs; st = snd cs
      in if token \<in> set [''|'', ''{'', ''}'', '']''] then Inr (currentTick, st)
         else
           (case getCursor st (inst_id inst) vId of
              Inl e \<Rightarrow> Inl e
            | Inr None \<Rightarrow> Inl TypeError
            | Inr (Some cursor) \<Rightarrow>
                (let built = buildEvent token inst vId baseTick relativeTick cursor;
                     cursor2 = fst built;
                     event3 = fst (snd built);
                     ticks = fst (snd (snd built));
                     isGrace = snd (snd (snd built));
                     st1 = putCursor (inst_id inst) vId cursor2 st;
                     st2 = st1\<lparr>score := (score st1)\<lparr>timeline := timeline (score st1) @ [event3]\<rparr>\<rparr>
                 in Inr ((if \<not> isGrace then js_add currentTick ticks else currentTick), st2))))"

section \<open>Macro expansion\<close>

text \<open>\<^verbatim>\<open>body.replace(new RegExp(`\\$${p}\\b`, 'g'), arg)\<close>: every occurrence of
  \<^verbatim>\<open>$p\<close> that ends at a word boundary is replaced. The parameter name and the
  argument are taken literally (regular-expression and replacement metacharacters in them
  are not modelled).\<close>

definition wordBoundary :: "char \<Rightarrow> string \<Rightarrow> bool" where
  "wordBoundary before after = (isIdentChar before \<noteq> (after \<noteq> [] \<and> isIdentChar (hd after)))"

function substParam :: "string \<Rightarrow> string \<Rightarrow> string \<Rightarrow> string" where
  "substParam p arg [] = []"
| "substParam p arg (c # cs) =
     (if take (Suc (length p)) (c # cs) = CHR ''$'' # p
         \<and> wordBoundary (last (CHR ''$'' # p)) (drop (length p) cs)
      then arg @ substParam p arg (drop (length p) cs)
      else c # substParam p arg cs)"
  by pat_completeness auto
termination
  by (relation "measure (\<lambda>(p, a, s). length s)") auto

text \<open>\<^verbatim>\<open>def.params.forEach((p, i) => ...)\<close> with \<^verbatim>\<open>args[i] || ''\<close>.\<close>

definition expandBody :: "MacroDef \<Rightarrow> string list \<Rightarrow> string" where
  "expandBody d as =
     fold (\<lambda>(p, i) b. substParam p (case nth_opt as i of Some a \<Rightarrow> a | None \<Rightarrow> []) b)
          (zip (params d) [0 ..< length (params d)]) (body d)"

text \<open>The loop \<^verbatim>\<open>for (const t of macroTokens) this.parseEvent(t, ..., 0, advanceTick)\<close>;
  an exception ends it.\<close>

fun macroEvents ::
  "string list \<Rightarrow> InstrumentDef \<Rightarrow> string \<Rightarrow> jsnum \<Rightarrow> jsnum \<times> parser \<Rightarrow> error + jsnum \<times> parser" where
  "macroEvents [] inst vId baseTick cs = Inr cs"
| "macroEvents (t # ts) inst vId baseTick cs =
     (case parseEvent t inst vId baseTick (Fin 0) cs of
        Inl e \<Rightarrow> Inl e
      | Inr cs1 \<Rightarrow> macroEvents ts inst vId baseTick cs1)"

text \<open>A token that includes \<^verbatim>\<open>(\<close> splits into at least two parts; the last case of
  the \<open>case\<close> cannot occur.\<close>

definition handleMacro ::
  "string \<Rightarrow> InstrumentDef \<Rightarrow> string \<Rightarrow> jsnum \<Rightarrow> jsnum \<times> parser \<Rightarrow> error + jsnum \<times> parser" where
  "handleMacro token inst vId baseTick cs =
     (let nm0 = drop 1 token;
          (nm, as) =
             (if includesChar nm0 CHR ''(''
              then (case splitChar CHR ''('' nm0 of
                      p0 # p1 # _ \<Rightarrow> (p0, splitChar CHR '','' (replaceFirst CHR '')'' p1))
                    | _ \<Rightarrow> (nm0, []))
              else (nm0, []))
      in (case macros (snd cs) nm of
            None \<Rightarrow> Inr cs
          | Some d \<Rightarrow> macroEvents (tokenize (expandBody d as)) inst vId baseTick cs))"

section \<open>Voices, instruments and measures\<close>

text \<open>The loop of \<^verbatim>\<open>parseVoiceStream\<close>, with its local \<^verbatim>\<open>currentTick\<close>.\<close>

partial_function (option) voiceLoop ::
  "InstrumentDef \<Rightarrow> string \<Rightarrow> jsnum \<Rightarrow> string \<Rightarrow> jsnum \<Rightarrow> parser \<Rightarrow> parser result" where
  "voiceLoop inst vId baseTick terminator currentTick st =
     (if peek st \<noteq> terminator \<and> peek st \<noteq> ''}'' \<and> tokenIndex st < length (tokens st)
      then (let token = fst (consume st);
                st1 = snd (consume st)
            in if token = '']'' then voiceLoop inst vId baseTick terminator currentTick st1
               else if startsWith token ''$''
               then rbind (Some (handleMacro token inst vId baseTick (currentTick, st1)))
                      (\<lambda>r. voiceLoop inst vId baseTick terminator (fst r) (snd r))
               else rbind (Some (parseEvent token inst vId baseTick currentTick (currentTick, st1)))
                      (\<lambda>r. voiceLoop inst vId baseTick terminator (fst r) (snd r)))
      else Some (Inr st))"

declare voiceLoop.simps [code]

definition parseVoiceStream ::
  "InstrumentDef \<Rightarrow> string \<Rightarrow> jsnum \<Rightarrow> string \<Rightarrow> parser \<Rightarrow> parser result" where
  "parseVoiceStream inst vId baseTick terminator st =
     voiceLoop inst vId baseTick terminator (Fin 0) st"

text \<open>\<^verbatim>\<open>if (!this.globalCursors[instId][voiceId]) this.globalCursors[instId][voiceId] =
  { octave: 4, duration: 1.0, tick: 0 };\<close>\<close>

definition initCursor :: "string \<Rightarrow> string \<Rightarrow> parser \<Rightarrow> error + parser" where
  "initCursor instId vId st =
     (case getCursor st instId vId of
        Inl e \<Rightarrow> Inl e
      | Inr (Some c) \<Rightarrow> Inr st
      | Inr None \<Rightarrow>
          Inr (putCursor instId vId \<lparr> octave = Fin 4, cur_duration = Fin 1, tick = Fin 0 \<rparr> st))"

text \<open>The loop over the voices of \<^verbatim>\<open>inst: { v1: ... | v2: ... }\<close>.\<close>

partial_function (option) voiceGroup ::
  "InstrumentDef \<Rightarrow> string \<Rightarrow> jsnum \<Rightarrow> parser \<Rightarrow> parser result" where
  "voiceGroup inst instId measureStartTick st =
     (if peek st \<noteq> ''}'' \<and> tokenIndex st < length (tokens st)
      then (let vToken = fst (consume st);
                st1 = snd (consume st);
                vId = replaceFirst CHR '':'' vToken;
                st2 = (if peek st1 = '':'' then snd (consume st1) else st1)
            in rbind (Some (initCursor instId vId st2))
                 (\<lambda>st3. rbind (parseVoiceStream inst vId measureStartTick ''|'' st3)
                    (\<lambda>st4. voiceGroup inst instId measureStartTick
                             (if peek st4 = ''|'' then snd (consume st4) else st4))))
      else Some (Inr st))"

declare voiceGroup.simps [code]

text \<open>\<^verbatim>\<open>parseInstrumentLogic(instId, measureStartTick)\<close>. The instrument is looked up with
  a non-null assertion; its only caller has checked that it exists, and the model throws
  at the lookup if it does not.\<close>

definition parseInstrumentLogic :: "string \<Rightarrow> jsnum \<Rightarrow> parser \<Rightarrow> parser result" where
  "parseInstrumentLogic instId measureStartTick st =
     (let st1 = snd (consume st);
          st2 = (if peek st1 = '':'' then snd (consume st1) else st1)
      in (case find (\<lambda>i. inst_id i = instId) (instruments (score st2)) of
            None \<Rightarrow> Some (Inl TypeError)
          | Some inst \<Rightarrow>
              (if peek st2 = ''{''
               then rbind (voiceGroup inst instId measureStartTick (snd (consume st2)))
                      (\<lambda>st3. Some (Inr (snd (consume st3))))
               else rbind (Some (initCursor instId ''v1'' st2))
                      (\<lambda>st3. rbind (parseVoiceStream inst ''v1'' measureStartTick ''|'' st3)
                         (\<lambda>st4. Some (Inr (if peek st4 = ''|'' then snd (consume st4) else st4)))))))"

text \<open>The brace-counting loop of \<^verbatim>\<open>parseMeasure\<close>.\<close>

function measureScan :: "int \<Rightarrow> parser \<Rightarrow> parser" where
  "measureScan balance st =
     (if balance > 0 \<and> tokenIndex st < length (tokens st)
      then (let t = fst (consume st);
                st1 = snd (consume st);
                balance1 = (if t = ''{'' then balance + 1 else balance);
                balance2 = (if t = ''}'' then balance1 - 1 else balance1)
            in measureScan balance2 st1)
      else st)"
  by pat_completeness auto
termination
  by (relation "measure (\<lambda>(b, st). length (tokens st) - tokenIndex st)")
     (auto simp: consume_def)

declare measureScan.simps [simp del]

text \<open>The loop \<^verbatim>\<open>while (this.tokenIndex < blockEnd)\<close> that replays the block once.\<close>

partial_function (option) replayBlock :: "jsnum \<Rightarrow> int \<Rightarrow> parser \<Rightarrow> parser result" where
  "replayBlock measureStartTick blockEnd st =
     (if int (tokenIndex st) < blockEnd
      then (let t = peek st
            in if toLowerCase t = ''meta''
               then rbind (parseMetaBlock st) (\<lambda>st1. replayBlock measureStartTick blockEnd st1)
               else (let possibleId = replaceFirst CHR '':'' t
                     in if list_ex (\<lambda>i. inst_id i = possibleId) (instruments (score st))
                        then rbind (parseInstrumentLogic possibleId measureStartTick st)
                               (\<lambda>st1. replayBlock measureStartTick blockEnd st1)
                        else replayBlock measureStartTick blockEnd (snd (consume st))))
      else Some (Inr st))"

declare replayBlock.simps [code]

text \<open>The loop \<^verbatim>\<open>for (let m = startM; m <= endM; m++)\<close>; \<open>ticksPerMeasure\<close> is a
  constant of the enclosing method.\<close>

partial_function (option) measureLoop ::
  "jsnum \<Rightarrow> jsnum \<Rightarrow> jsnum \<Rightarrow> nat \<Rightarrow> int \<Rightarrow> parser \<Rightarrow> parser result" where
  "measureLoop m endM ticksPerMeasure blockStart blockEnd st =
     (if js_le m endM
      then (let measureStartTick = js_mul (js_sub m (Fin 1)) ticksPerMeasure
            in rbind (replayBlock measureStartTick blockEnd (st\<lparr>tokenIndex := blockStart\<rparr>))
                 (\<lambda>st1. measureLoop (js_add m (Fin 1)) endM ticksPerMeasure blockStart blockEnd st1))
      else Some (Inr st))"

declare measureLoop.simps [code]

definition ticksPerMeasureOf :: "jsnum \<times> jsnum \<Rightarrow> jsnum" where
  "ticksPerMeasureOf ts = js_mul (js_mul (fst ts) (js_div (Fin 4) (snd ts))) TICKS_PER_QUARTER"

text \<open>The measure numbers of a range token \<^verbatim>\<open>n\<close> or \<^verbatim>\<open>n-m\<close> (\<open>startM\<close> and \<open>endM\<close>).\<close>

definition measureRange :: "string \<Rightarrow> jsnum \<times> jsnum" where
  "measureRange r =
     (if includesChar r CHR ''-''
      then (let p = splitChar CHR ''-'' r
            in (parseInt_opt (nth_opt p 0), parseInt_opt (nth_opt p 1)))
      else (parseInt r, parseInt r))"

definition parseMeasure :: "parser \<Rightarrow> parser result" where
  "parseMeasure st =
     (let st1 = snd (consume st);
          range = fst (consume st1);
          st2 = snd (consume st1);
          (startM, endM) = measureRange range
      in if \<not> fst (match ''{'' st2) then Some (Inr (snd (match ''{'' st2)))
         else (let st3 = snd (match ''{'' st2);
                   blockStart = tokenIndex st3;
                   st4 = measureScan 1 st3;
                   blockEnd = int (tokenIndex st4) - 1;
                   ticksPerMeasure = ticksPerMeasureOf (timeSignature (meta (score st4)))
               in rbind (measureLoop startM endM ticksPerMeasure blockStart blockEnd st4)
                    (\<lambda>st5. Some (Inr (st5\<lparr>tokenIndex := nat (blockEnd + 1)\<rparr>)))))"

section \<open>The document and the finished score\<close>

partial_function (option) parseBody :: "parser \<Rightarrow> parser result" where
  "parseBody st =
     (if tokenIndex st < length (tokens st) \<and> peek st \<noteq> ''}''
      then (let t = peek st
            in if toLowerCase t = ''meta'' then rbind (parseMetaBlock st) (\<lambda>st1. parseBody st1)
               else if toLowerCase t = ''macro'' then parseBody (parseMacroDef st)
               else if toLowerCase t = ''group'' then rbind (parseGroup st) (\<lambda>st1. parseBody st1)
               else if toLowerCase t = ''def'' then parseBody (parseDef st)
               else if toLowerCase t = ''measure'' then rbind (parseMeasure st) (\<lambda>st1. parseBody st1)
               else parseBody (snd (consume st)))
      else Some (Inr st))"

declare parseBody.simps [code]

text \<open>\<^verbatim>\<open>timeline.sort((a, b) => a.tickStart - b.tickStart)\<close>. The sort of an array is
  stable, and a comparator result that is \<^verbatim>\<open>NaN\<close> counts as zero. With a consistent
  comparator every stable sort gives the same array; it is modelled by insertion from the
  right. (With \<^verbatim>\<open>NaN\<close> among the keys the comparator is not consistent and the order
  is left to the implementation.)\<close>

definition compareTickStart :: "NoteEvent \<Rightarrow> NoteEvent \<Rightarrow> jsnum" where
  "compareTickStart a b = js_sub (tickStart a) (tickStart b)"

fun insertBy :: "('a \<Rightarrow> 'a \<Rightarrow> jsnum) \<Rightarrow> 'a \<Rightarrow> 'a list \<Rightarrow> 'a list" where
  "insertBy cmp x [] = [x]"
| "insertBy cmp x (y # ys) = (if js_pos (cmp x y) then y # insertBy cmp x ys else x # y # ys)"

definition sortBy :: "('a \<Rightarrow> 'a \<Rightarrow> jsnum) \<Rightarrow> 'a list \<Rightarrow> 'a list" where
  "sortBy cmp xs = foldr (insertBy cmp) xs []"

text \<open>Step 4 of \<^verbatim>\<open>parse\<close>: sort the timeline, take the duration from its last event.\<close>

definition finalize :: "parser \<Rightarrow> CompiledScore" where
  "finalize st =
     (let sc = (score st)\<lparr>timeline := sortBy compareTickStart (timeline (score st))\<rparr>
      in if length (timeline sc) > 0 then sc\<lparr>durationTicks := tickEnd (last (timeline sc))\<rparr> else sc)"

text \<open>Steps 1 to 3 of \<^verbatim>\<open>parse\<close>: strip comments, tokenize, parse the root block.\<close>

definition parseRoot :: "string \<Rightarrow> parser result" where
  "parseRoot code =
     (let st = initParser code;
          cleanCode = stripComments (source st);
          st1 = st\<lparr>tokens := tokenize cleanCode, tokenIndex := 0\<rparr>
      in if peek st1 = ''omniscore''
         then (let st2 = snd (consume st1)
               in if fst (match ''{'' st2)
                  then rbind (parseBody (snd (match ''{'' st2)))
                         (\<lambda>st3. Some (Inr (snd (match ''}'' st3))))
                  else Some (Inr (snd (match ''{'' st2))))
         else parseBody st1)"

definition parse :: "string \<Rightarrow> CompiledScore result" where
  "parse code = rbind (parseRoot code) (\<lambda>st. Some (Inr (finalize st)))"

section \<open>Notions used in the statements\<close>

text \<open>A run that returns a value satisfying \<open>P\<close>.\<close>

definition returns :: "'a result \<Rightarrow> ('a \<Rightarrow> bool) \<Rightarrow> bool" where
  "returns r P = (case r of Some (Inr x) \<Rightarrow> P x | _ \<Rightarrow> False)"

text \<open>The source text \<^verbatim>\<open>meta { time: "v" }\<close> for a value \<open>v\<close>, the pair that the two
  sides of \<^verbatim>\<open>/\<close> in \<open>v\<close> read as, and texts that hold a comment marker \<^verbatim>\<open>%%\<close>.\<close>

definition metaTimeSource :: "string \<Rightarrow> string" where
  "metaTimeSource v = ''meta { time: '' @ [DQ] @ v @ [DQ] @ '' }''"

definition timeOf :: "string \<Rightarrow> jsnum \<times> jsnum" where
  "timeOf v =
     (parseInt10_opt (nth_opt (splitChar CHR ''/'' v) 0),
      parseInt10_opt (nth_opt (splitChar CHR ''/'' v) 1))"

fun hasComment :: "string \<Rightarrow> bool" where
  "hasComment (a # b # cs) = ((a = CHR ''%'' \<and> b = CHR ''%'') \<or> hasComment (b # cs))"
| "hasComment _ = False"



text \<open>The velocity of an event as its modifier list determines it: the first modifier
  named \<^verbatim>\<open>vol\<close> or \<^verbatim>\<open>vel\<close> decides; with a number as first argument it gives that
  number over 127, otherwise, and with no such modifier, the velocity is 0.8.\<close>

definition velocityRule :: "NoteEvent \<Rightarrow> bool" where
  "velocityRule e =
     (velocity e =
        (case find (\<lambda>a. name a = ''vol'' \<or> name a = ''vel'') (modifiers e) of
           None \<Rightarrow> Fin (4 / 5)
         | Some a \<Rightarrow> (case args a of Num n # _ \<Rightarrow> js_div n (Fin 127) | _ \<Rightarrow> Fin (4 / 5))))"




text \<open>What the parser has produced so far, and the invariant of a compilation before
  its last step: the duration is still the initial 0 and every event obeys the
  velocity rule.\<close>

definition produced :: "parser \<Rightarrow> NoteEvent list \<times> jsnum" where
  "produced st = (timeline (score st), durationTicks (score st))"

definition scoreInv :: "parser \<Rightarrow> bool" where
  "scoreInv st = (durationTicks (score st) = Fin 0 \<and> list_all velocityRule (timeline (score st)))"



definition velocitySource :: string where
  "velocitySource = ''def p measure 1 { p: '' @ [DQ] @ ''c.vel(50).x'' @ [DQ] @ '' }''"

definition laterVelSource :: string where
  "laterVelSource = ''def p measure 1 { p: '' @ [DQ] @ ''c.vol.vel(50).x'' @ [DQ] @ '' }''"


definition pianoExample :: InstrumentDef where
  "pianoExample =
     \<lparr> inst_id = ''p'', inst_label = ''p'', inst_group = None, inst_style = STANDARD,
       inst_clef = None, inst_transpose = None, inst_tuning = None, inst_map = None,
       inst_patch = None, inst_vol = None, inst_pan = None \<rparr>"

definition voiceExample :: parser where
  "voiceExample = (initParser [])\<lparr>globalCursors := [''p'' \<mapsto> Map.empty]\<rparr>"

text \<open>A token array as \<^verbatim>\<open>parseEvent\<close> expects it, the duration inside the token.\<close>

definition wholeTokens :: parser where
  "wholeTokens = voiceExample\<lparr>tokens := [''c4:4'', ''d'', ''e'']\<rparr>"

section \<open>Termination\<close>

text \<open>The first loop of \<^verbatim>\<open>parseGroup\<close> can only stop at a token \<^verbatim>\<open>{\<close>, which lies
  within the token array.\<close>

lemma skipToBrace_in_range:
  assumes "skipToBrace st = Some y"
  shows "tokenIndex st < length (tokens st)"
proof (rule skipToBrace.raw_induct [where P = "\<lambda>st y. tokenIndex st < length (tokens st)", OF _ assms])
  fix f :: "parser \<Rightarrow> parser result" and st y
  assume IH: "\<And>x y. f x = Some y \<Longrightarrow> tokenIndex x < length (tokens x)"
    and step: "(if peek st \<noteq> ''{'' then f (snd (consume st)) else Some (Inr st)) = Some y"
  show "tokenIndex st < length (tokens st)"
  proof (cases "peek st = ''{''")
    case True
    then have "peek st \<noteq> []" by auto
    then show ?thesis by (rule peek_nonempty_in_range)
  next
    case False
    with step have "f (snd (consume st)) = Some y" by simp
    then have "tokenIndex (snd (consume st)) < length (tokens (snd (consume st)))" by (rule IH)
    then show ?thesis by (simp add: consume_def)
  qed
qed

lemma skipToBrace_diverges:
  "length (tokens st) \<le> tokenIndex st \<Longrightarrow> skipToBrace st = None"
  using skipToBrace_in_range [of st] by (cases "skipToBrace st") auto

lemma tokenize_group_x: "tokenize (stripComments ''group x'') = [''group'', ''x'']"
  by code_simp

text \<open>
  Claim C1 says that \<^verbatim>\<open>parse()\<close> terminates and returns a score for every source
  text. On the source text \<^verbatim>\<open>group x\<close> it does not return: \<^verbatim>\<open>parseGroup\<close> consumes the
  two tokens and then looks for a \<^verbatim>\<open>{\<close> forever, since past the end \<^verbatim>\<open>peek\<close> is the
  empty string. The sibling loops of the parser all test
  \<^verbatim>\<open>this.tokenIndex < this.tokens.length\<close>; this one does not.
\<close>

theorem C1_parse_group_without_brace_diverges: "parse ''group x'' = None"
proof -
  define st0 where "st0 = (initParser ''group x'')\<lparr>tokens := [''group'', ''x''], tokenIndex := 0\<rparr>"
  have g: "parseGroup st0 = None"
    unfolding parseGroup_def Let_def
    by (subst skipToBrace_diverges) (simp_all add: st0_def consume_def)
  have pk: "peek st0 = ''group''"
    by (simp add: st0_def peek_def nth_opt_def)
  have lc: "toLowerCase ''group'' = ''group''"
    by code_simp
  have b: "parseBody st0 = None"
    by (subst parseBody.simps) (simp add: pk lc g, simp add: st0_def)
  have src: "source (initParser ''group x'') = ''group x''"
    by (simp add: initParser_def)
  have r: "parseRoot ''group x'' = parseBody st0"
    unfolding parseRoot_def Let_def src tokenize_group_x
    by (simp add: st0_def [symmetric] pk)
  show ?thesis by (simp add: parse_def r b)
qed

text \<open>The inner loop of \<^verbatim>\<open>parseMetaBlock\<close> has the same shape: a value that starts
  with \<^verbatim>\<open>[\<close> is extended until it ends with \<^verbatim>\<open>]\<close>, and past the end of the tokens
  nothing is added to it any more.\<close>

lemma metaListValue_stops:
  assumes "metaListValue v st = Some y"
  shows "tokenIndex st < length (tokens st) \<or> endsWith v '']''"
proof (rule metaListValue.raw_induct
    [where P = "\<lambda>v st y. tokenIndex st < length (tokens st) \<or> endsWith v '']''", OF _ assms],
    goal_cases)
  case (1 f v st y)
  show ?case
  proof (cases "endsWith v '']''")
    case True
    then show ?thesis by simp
  next
    case False
    with 1(2) have "f (v @ fst (consume st)) (snd (consume st)) = Some y" by simp
    then have "tokenIndex (snd (consume st)) < length (tokens (snd (consume st)))
        \<or> endsWith (v @ fst (consume st)) '']''"
      by (rule 1(1))
    then show ?thesis
      using False by (auto simp: consume_def peek_def nth_opt_def split: if_splits)
  qed
qed

lemma metaListValue_diverges:
  "length (tokens st) \<le> tokenIndex st \<Longrightarrow> \<not> endsWith v '']'' \<Longrightarrow> metaListValue v st = None"
  using metaListValue_stops [of v st] by (cases "metaListValue v st") auto

lemma tokenize_meta_list: "tokenize (stripComments ''meta { x: ['') = [''meta'', ''{'', ''x'', '':'', ''['']"
  by code_simp

lemma lower_meta: "toLowerCase ''meta'' = ''meta''"
  by code_simp

lemma parse_unclosed_meta_list_diverges: "parse ''meta { x: ['' = None"
proof -
  define T where "T = [''meta'', ''{'', ''x'', '':'', ''['']"
  define st0 where "st0 = (initParser ''meta { x: ['')\<lparr>tokens := T, tokenIndex := 0\<rparr>"
  have pk: "\<And>i. peek (st0\<lparr>tokenIndex := i\<rparr>) = (case nth_opt T i of Some t \<Rightarrow> t | None \<Rightarrow> [])"
    by (simp add: peek_def st0_def)
  have tk: "tokens st0 = T" "tokenIndex st0 = 0" "peek st0 = ''meta''"
    by (simp_all add: st0_def peek_def nth_opt_def T_def)
  have l: "metaListValue ''['' (st0\<lparr>tokenIndex := 5\<rparr>) = None"
    by (rule metaListValue_diverges) (simp_all add: tk T_def endsWith_def)
  have e: "metaEntries (st0\<lparr>tokenIndex := Suc (Suc 0)\<rparr>) = None"
    apply (subst metaEntries.simps)
    apply (simp add: pk tk consume_def Let_def nth_opt_def T_def replaceFirst_def startsWith_def)
    apply (insert l)
    apply (simp add: eval_nat_numeral)
    done
  have m: "parseMetaBlock st0 = None"
    unfolding parseMetaBlock_def
    by (simp add: Let_def match_def consume_def pk tk nth_opt_def T_def e)
  have b: "parseBody st0 = None"
    by (subst parseBody.simps) (simp add: tk T_def lower_meta m)
  have src: "source (initParser ''meta { x: ['') = ''meta { x: [''"
    by (simp add: initParser_def)
  have r: "parseRoot ''meta { x: ['' = parseBody st0"
    unfolding parseRoot_def Let_def src tokenize_meta_list
    by (simp add: T_def [symmetric] st0_def [symmetric] tk)
  show ?thesis by (simp add: parse_def r b)
qed

section \<open>Event streams as the lexer delivers them\<close>

text \<open>
  Claim C2 says that the stream \<^verbatim>\<open>c4:4 d e\<close> gives exactly three events. The lexer makes
  \<^verbatim>\<open>:\<close> a token of its own, so the stream arrives as the five tokens \<^verbatim>\<open>c4\<close>, \<^verbatim>\<open>:\<close>, \<^verbatim>\<open>4\<close>,
  \<^verbatim>\<open>d\<close>, \<^verbatim>\<open>e\<close>, and \<^verbatim>\<open>parseEvent\<close>, which expects the duration inside the token
  (\<^verbatim>\<open>core.split(':')\<close>), emits one event for each: five events, the second and third
  with the nominal pitch 60.
\<close>

theorem C2_sticky_duration_stream_gives_five_events:
  "returns (parse ''def pno measure 1 { pno: c4:4 d e }'')
     (\<lambda>sc. length (timeline sc) = 5 \<and>
        map (\<lambda>e. (pitches e, duration e, tickStart e)) (timeline sc) =
          [([Fin 60], Fin 1, Fin 0), ([Fin 60], Fin 1, Fin 1920), ([Fin 60], Fin 1, Fin 3840),
           ([Fin 62], Fin 1, Fin 5760), ([Fin 64], Fin 1, Fin 7680)])"
  by code_simp

text \<open>
  Claim C3 says that the macro \<^verbatim>\<open>HatPattern(vel)\<close>, invoked as \<^verbatim>\<open>$HatPattern(80)\<close>, gives
  four events. The lexer makes \<^verbatim>\<open>(\<close> a token of its own, so \<^verbatim>\<open>parseMacroDef\<close> reads the
  signature \<^verbatim>\<open>HatPattern\<close>, finds neither \<^verbatim>\<open>=\<close> nor \<^verbatim>\<open>{\<close> next and returns without
  defining the macro; \<^verbatim>\<open>parseBody\<close> then skips tokens up to the closing brace of the
  macro body and stops there. The compiled score has no instrument and no event.
\<close>

theorem C3_macro_with_parameter_gives_no_event:
  "returns (parse ''macro HatPattern(vel) = { h:8.vol($vel) h h h } def drm measure 1 { drm: $HatPattern(80) }'')
     (\<lambda>sc. timeline sc = [] \<and> instruments sc = [])"
  by code_simp

text \<open>
  Claim C4 says that \<^verbatim>\<open>[c4 e4 g4]:4\<close> gives exactly one chord event with three pitches.
  The lexer makes \<^verbatim>\<open>[\<close> and \<^verbatim>\<open>]\<close> tokens of their own: the token \<^verbatim>\<open>[\<close> gives a chord
  with the single nominal pitch 60, and \<^verbatim>\<open>c4\<close>, \<^verbatim>\<open>e4\<close>, \<^verbatim>\<open>g4\<close>, \<^verbatim>\<open>:\<close> and \<^verbatim>\<open>4\<close> give one
  note event each.
\<close>

theorem C4_bracketed_chord_gives_six_events:
  "returns (parse ''def pno measure 1 { pno: [c4 e4 g4]:4 }'')
     (\<lambda>sc. map (\<lambda>e. (kind e, pitches e)) (timeline sc) =
        [(Chord, [Fin 60]), (Note, [Fin 60]), (Note, [Fin 64]), (Note, [Fin 67]),
         (Note, [Fin 60]), (Note, [Fin 60])])"
  by code_simp

text \<open>The parser itself handles whole tokens as the claims say: given the token array
  \<^verbatim>\<open>c4:4\<close>, \<^verbatim>\<open>d\<close>, \<^verbatim>\<open>e\<close> the voice stream gives three events 1920 ticks apart, and the
  token \<^verbatim>\<open>[c4 e4 g4]:4\<close> gives one chord with three pitches. The lexer never delivers
  such tokens. A macro without parameters is defined and expanded, but each of its events
  is placed at relative tick 0.\<close>

lemma whole_tokens_sticky_duration:
  "returns (rbind (Some (initCursor ''p'' ''v1'' wholeTokens)) (parseVoiceStream pianoExample ''v1'' (Fin 0) ''|''))
     (\<lambda>st. map (\<lambda>e. (pitches e, duration e, tickStart e)) (timeline (score st)) =
        [([Fin 60], Fin 1, Fin 0), ([Fin 62], Fin 1, Fin 1920), ([Fin 64], Fin 1, Fin 3840)])"
  by code_simp

lemma whole_token_chord:
  "(\<lambda>e. (kind e, pitches e, duration e))
     (fst (snd (buildEvent ''[c4 e4 g4]:4'' pianoExample ''v1'' (Fin 0) (Fin 0)
                  \<lparr>octave = Fin 4, cur_duration = Fin 1, tick = Fin 0\<rparr>))) =
   (Chord, [Fin 60, Fin 64, Fin 67], Fin 1)"
  by code_simp

lemma macro_events_share_one_start:
  "returns (parse ''macro Hat = { h h h h } def drm measure 1 { drm: $Hat }'')
     (\<lambda>sc. map tickStart (timeline sc) = [Fin 0, Fin 0, Fin 0, Fin 0])"
  by code_simp

section \<open>The time signature of a meta block\<close>

lemma stripComments_id: "\<not> hasComment s \<Longrightarrow> stripComments s = s"
  by (induction s rule: stripComments.induct) auto

lemma hasComment_Cons_other: "c \<noteq> CHR ''%'' \<Longrightarrow> hasComment (c # xs) = hasComment xs"
  by (cases xs) auto

lemma hasComment_append_DQ:
  "hasComment (v @ DQ # r) = (hasComment v \<or> hasComment (DQ # r))"
  by (induction v rule: hasComment.induct) (auto simp: DQ_def)

lemma DQ_not_percent: "DQ \<noteq> CHR ''%''"
  by (simp add: DQ_def)

lemma takeWhile_to_DQ: "DQ \<notin> set v \<Longrightarrow> takeWhile (\<lambda>x. x \<noteq> DQ) (v @ DQ # r) = v"
  by (induction v) auto

lemma dropWhile_to_DQ: "DQ \<notin> set v \<Longrightarrow> dropWhile (\<lambda>x. x \<noteq> DQ) (v @ DQ # r) = DQ # r"
  by (induction v) auto

lemma filter_no_DQ: "DQ \<notin> set v \<Longrightarrow> filter (\<lambda>x. x \<noteq> DQ) v = v"
  by (induction v) auto

lemma strip_metaTimeSource:
  assumes "\<not> hasComment v"
  shows "stripComments (metaTimeSource v) = metaTimeSource v"
proof -
  have "\<not> hasComment (metaTimeSource v)"
    using assms
    by (simp add: metaTimeSource_def hasComment_append_DQ hasComment_Cons_other DQ_not_percent)
  then show ?thesis by (rule stripComments_id)
qed

lemma tokenize_metaTimeSource:
  assumes "DQ \<notin> set v"
  shows "tokenize (metaTimeSource v) = [''meta'', ''{'', ''time'', '':'', DQ # v @ [DQ], ''}'']"
  using assms
  by (simp add: metaTimeSource_def isPunct_def isSymbolChar_def isLetter_def isDigit_def
        takeWhile_to_DQ dropWhile_to_DQ)
     (simp add: DQ_def)

lemma DQ_tok_neq [simp]:
  "DQ # v @ [DQ] \<noteq> ''}''" "DQ # v @ [DQ] \<noteq> '':''" "DQ # v @ [DQ] \<noteq> '',''"
  "\<not> startsWith (DQ # v @ [DQ]) ''[''"
  by (auto simp: DQ_def startsWith_def)

lemma lower_kw [simp]: "toLowerCase ''meta'' = ''meta''" "toLowerCase ''time'' = ''time''"
  by code_simp+

text \<open>
  Claim C8, amended. For every value \<open>v\<close> (free of double quotes and comment markers),
  compiling \<^verbatim>\<open>meta { time: "v" }\<close> returns a score whose time signature is the pair of
  integers read from the two sides of \<^verbatim>\<open>/\<close> in \<open>v\<close> when both read as integers
  (\<^verbatim>\<open>parseInt\<close> gives no \<^verbatim>\<open>NaN\<close>), and the default \<open>[4,4]\<close> otherwise. In particular
  \<^verbatim>\<open>"3/4"\<close> gives \<open>[3,4]\<close>. A zero denominator is an integer like any other and is
  stored.
\<close>

theorem C8_time_signature_from_meta:
  assumes q: "DQ \<notin> set v" and c: "\<not> hasComment v"
  shows "returns (parse (metaTimeSource v))
     (\<lambda>sc. timeSignature (meta sc) =
        (if \<not> isNaN (fst (timeOf v)) \<and> \<not> isNaN (snd (timeOf v)) then timeOf v else (Fin 4, Fin 4)))"
proof -
  define T where "T = [''meta'', ''{'', ''time'', '':'', DQ # v @ [DQ], ''}'']"
  define st0 where "st0 = (initParser (metaTimeSource v))\<lparr>tokens := T, tokenIndex := 0\<rparr>"
  define m' where "m' = setMeta ''time'' v (meta (score st0))"
  define st5 where "st5 = st0\<lparr>tokenIndex := 5, score := (score st0)\<lparr>meta := m'\<rparr>\<rparr>"
  have pk: "\<And>i sc. peek (st0\<lparr>tokenIndex := i, score := sc\<rparr>) = (case nth_opt T i of Some t \<Rightarrow> t | None \<Rightarrow> [])"
    "\<And>i. peek (st0\<lparr>tokenIndex := i\<rparr>) = (case nth_opt T i of Some t \<Rightarrow> t | None \<Rightarrow> [])"
    by (simp_all add: peek_def st0_def)
  have tk: "tokens st0 = T" "tokenIndex st0 = 0" by (simp_all add: st0_def)
  have e2: "metaEntries st5 = Some (Inr st5)"
    by (subst metaEntries.simps) (simp add: st5_def pk T_def nth_opt_def)
  have e1: "metaEntries (st0\<lparr>tokenIndex := Suc (Suc 0)\<rparr>) = Some (Inr st5)"
    apply (subst metaEntries.simps)
    apply (simp add: pk tk consume_def Let_def nth_opt_def T_def replaceFirst_def replaceAll_def filter_no_DQ [OF q])
    apply (insert e2)
    apply (simp add: st5_def m'_def st0_def T_def eval_nat_numeral)
    done
  have mb: "parseMetaBlock st0 = Some (Inr (st5\<lparr>tokenIndex := 6\<rparr>))"
    unfolding parseMetaBlock_def
    by (simp add: Let_def match_def consume_def pk tk nth_opt_def T_def e1)
       (simp add: st5_def)
  have b2: "parseBody (st5\<lparr>tokenIndex := 6\<rparr>) = Some (Inr (st5\<lparr>tokenIndex := 6\<rparr>))"
    by (subst parseBody.simps) (simp add: st5_def st0_def T_def)
  have b1: "parseBody st0 = Some (Inr (st5\<lparr>tokenIndex := 6\<rparr>))"
    by (subst parseBody.simps) (simp add: tk peek_def nth_opt_def T_def mb b2)
  have src: "source (initParser (metaTimeSource v)) = metaTimeSource v"
    by (simp add: initParser_def)
  have r: "parseRoot (metaTimeSource v) = Some (Inr (st5\<lparr>tokenIndex := 6\<rparr>))"
    unfolding parseRoot_def Let_def src strip_metaTimeSource [OF c] tokenize_metaTimeSource [OF q]
    by (simp add: T_def [symmetric] st0_def [symmetric] b1) (simp add: peek_def tk nth_opt_def T_def)
  have ts: "timeSignature m' =
      (if \<not> isNaN (fst (timeOf v)) \<and> \<not> isNaN (snd (timeOf v)) then timeOf v else (Fin 4, Fin 4))"
    by (simp add: m'_def setMeta_def timeOf_def Let_def st0_def initParser_def)
  have tl: "timeline (score st5) = []"
    by (simp add: st5_def st0_def initParser_def)
  have mt: "meta (score st5) = m'"
    by (simp add: st5_def)
  show ?thesis
    by (simp add: parse_def r returns_def finalize_def Let_def sortBy_def tl mt ts del: split_paired_All)
qed

theorem C8_time_signature_from_meta_witness:
  "DQ \<notin> set ''3/4'' \<and> \<not> hasComment ''3/4'' \<and>
   returns (parse (metaTimeSource ''3/4'')) (\<lambda>sc. timeSignature (meta sc) = (Fin 3, Fin 4))"
proof -
  have h1: "DQ \<notin> set ''3/4''" by (simp add: DQ_def)
  have h2: "\<not> hasComment ''3/4''" by simp
  have t: "timeOf ''3/4'' = (Fin 3, Fin 4)" by code_simp
  show ?thesis using C8_time_signature_from_meta [OF h1 h2] h1 h2 by (simp add: t)
qed

text \<open>Claim C8 as stated fails: \<^verbatim>\<open>meta { time: "4/0" }\<close> does not leave \<open>[4,4]\<close> in
  place, the time signature becomes \<open>[4,0]\<close>.\<close>

theorem C8_zero_denominator_is_stored:
  "returns (parse (metaTimeSource ''4/0''))
     (\<lambda>sc. timeSignature (meta sc) = (Fin 4, Fin 0) \<and> timeSignature (meta sc) \<noteq> (Fin 4, Fin 4))"
  by code_simp

section \<open>Measure replay\<close>


lemma measureLoop_NaN:
  "measureLoop NaN e tpm bs be st = Some (Inr st)"
  "measureLoop s NaN tpm bs be st = Some (Inr st)"
  by (subst measureLoop.simps, cases s, simp_all)+







section \<open>The sort of the timeline\<close>





lemma set_insertBy [simp]: "set (insertBy cmp x ys) = insert x (set ys)"
  by (induction ys) auto

lemma set_sortBy [simp]: "set (sortBy cmp xs) = set xs"
  by (induction xs) (auto simp: sortBy_def)

lemma length_insertBy [simp]: "length (insertBy cmp x ys) = Suc (length ys)"
  by (induction ys) auto

lemma length_sortBy [simp]: "length (sortBy cmp xs) = length xs"
  by (induction xs) (auto simp: sortBy_def)





lemma timeline_finalize: "timeline (finalize st) = sortBy compareTickStart (timeline (score st))"
  by (simp add: finalize_def Let_def)




section \<open>What a compilation keeps invariant\<close>

lemma scoreInv_cong: "produced st' = produced st \<Longrightarrow> scoreInv st' = scoreInv st"
  by (simp add: produced_def scoreInv_def)

lemma rbind_eq_Some_Inr:
  "rbind m f = Some (Inr y) \<longleftrightarrow> (\<exists>x. m = Some (Inr x) \<and> f x = Some (Inr y))"
  by (cases m) (auto simp: rbind_def split: sum.splits)

lemma produced_consume [simp]: "produced (snd (consume st)) = produced st"
  by (simp add: consume_def produced_def)

lemma produced_match [simp]: "produced (snd (match v st)) = produced st"
  by (simp add: match_def)

lemma produced_updates [simp]:
  "produced (st\<lparr>tokenIndex := i\<rparr>) = produced st"
  "produced (st\<lparr>currentGroup := g\<rparr>) = produced st"
  "produced (st\<lparr>macros := ms\<rparr>) = produced st"
  "produced (st\<lparr>globalCursors := gc\<rparr>) = produced st"
  "produced (st\<lparr>score := (score st)\<lparr>meta := m\<rparr>\<rparr>) = produced st"
  "produced (st\<lparr>score := (score st)\<lparr>instruments := is\<rparr>\<rparr>) = produced st"
  by (simp_all add: produced_def)

lemma consume_produced: "consume st = (a, b) \<Longrightarrow> produced b = produced st"
  by (auto simp: consume_def produced_def)

lemma metaListValue_produced:
  assumes "metaListValue v st = Some (Inr (v', st'))"
  shows "produced st' = produced st"
proof -
  have "\<forall>v' st'. y = Inr (v', st') \<longrightarrow> produced st' = produced st"
    if "metaListValue v st = Some y" for y
  proof (rule metaListValue.raw_induct
      [where P = "\<lambda>v st y. \<forall>v' st'. y = Inr (v', st') \<longrightarrow> produced st' = produced st", OF _ that],
      goal_cases)
    case (1 f v st y)
    show ?case
      using 1(2) by (auto split: if_splits dest!: 1(1))
  qed
  with assms show ?thesis by blast
qed

lemma metaEntries_produced:
  assumes "metaEntries st = Some (Inr st')"
  shows "produced st' = produced st"
proof -
  have "\<forall>st'. y = Inr st' \<longrightarrow> produced st' = produced st"
    if "metaEntries st = Some y" for y
  proof (rule metaEntries.raw_induct
      [where P = "\<lambda>st y. \<forall>st'. y = Inr st' \<longrightarrow> produced st' = produced st", OF _ that],
      goal_cases)
    case (1 f st y)
    show ?case
      using 1(2)
      by (auto simp: Let_def rbind_eq_Some_Inr split: if_splits
               dest!: 1(1) metaListValue_produced consume_produced)
  qed
  with assms show ?thesis by blast
qed

lemma parseMetaBlock_produced:
  "parseMetaBlock st = Some (Inr st') \<Longrightarrow> produced st' = produced st"
  by (auto simp: parseMetaBlock_def Let_def rbind_eq_Some_Inr split: if_splits
           dest!: metaEntries_produced)

lemma macroBody_produced [simp]: "produced (snd (macroBody b ts st)) = produced st"
proof (induction b ts st rule: macroBody.induct)
  case (1 balance bodyTokens st)
  show ?case
    by (subst macroBody.simps) (simp add: Let_def 1)
qed

lemma parseMacroDef_produced [simp]: "produced (parseMacroDef st) = produced st"
  by (simp add: parseMacroDef_def Let_def split_def)

lemma defAttrs_produced [simp]: "produced (snd (defAttrs inst st)) = produced st"
proof (induction inst st rule: defAttrs.induct)
  case (1 inst st)
  show ?case
    by (subst defAttrs.simps) (auto simp: Let_def 1 split: list.splits)
qed

lemma parseDef_produced [simp]: "produced (parseDef st) = produced st"
  by (simp add: parseDef_def Let_def split_def produced_def [of "_\<lparr>score := _, globalCursors := _\<rparr>"])

lemma skipToBrace_produced:
  assumes "skipToBrace st = Some (Inr st')"
  shows "produced st' = produced st"
proof -
  have "\<forall>st'. y = Inr st' \<longrightarrow> produced st' = produced st"
    if "skipToBrace st = Some y" for y
  proof (rule skipToBrace.raw_induct
      [where P = "\<lambda>st y. \<forall>st'. y = Inr st' \<longrightarrow> produced st' = produced st", OF _ that],
      goal_cases)
    case (1 f st y)
    show ?case
      using 1(2) by (auto split: if_splits dest!: 1(1))
  qed
  with assms show ?thesis by blast
qed

lemma groupBody_produced:
  assumes "groupBody st = Some (Inr st')"
  shows "produced st' = produced st"
proof -
  have "\<forall>st'. y = Inr st' \<longrightarrow> produced st' = produced st"
    if "groupBody st = Some y" for y
  proof (rule groupBody.raw_induct
      [where P = "\<lambda>st y. \<forall>st'. y = Inr st' \<longrightarrow> produced st' = produced st", OF _ that],
      goal_cases)
    case (1 f st y)
    show ?case
      using 1(2) by (auto split: if_splits dest!: 1(1))
  qed
  with assms show ?thesis by blast
qed

lemma parseGroup_produced:
  "parseGroup st = Some (Inr st') \<Longrightarrow> produced st' = produced st"
  by (auto simp: parseGroup_def Let_def rbind_eq_Some_Inr
           dest!: skipToBrace_produced groupBody_produced)

lemma putCursor_produced [simp]: "produced (putCursor i v c st) = produced st"
  by (simp add: putCursor_def)

lemma initCursor_produced: "initCursor i v st = Inr st' \<Longrightarrow> produced st' = produced st"
  by (auto simp: initCursor_def split: sum.splits option.splits)

lemma measureScan_produced [simp]: "produced (measureScan n st) = produced st"
proof (induction n st rule: measureScan.induct)
  case (1 balance st)
  show ?case
    by (subst measureScan.simps) (simp add: Let_def 1)
qed

lemma resolvePitch_keeps:
  "velocity (snd (resolvePitch p inst ce)) = velocity (snd ce)"
  "modifiers (snd (resolvePitch p inst ce)) = modifiers (snd ce)"
  by (auto simp: resolvePitch_def Let_def split_def split: option.splits DrumMapValue.splits)

lemma fold_resolvePitch_keeps:
  "velocity (snd (fold (\<lambda>p. resolvePitch p inst) ps ce)) = velocity (snd ce)"
  "modifiers (snd (fold (\<lambda>p. resolvePitch p inst) ps ce)) = modifiers (snd ce)"
  by (induction ps arbitrary: ce) (simp_all add: resolvePitch_keeps)

lemma buildEvent_velocityRule:
  "velocityRule (fst (snd (buildEvent token inst vId baseTick relativeTick cursor)))"
  by (simp add: buildEvent_def Let_def velocityRule_def volOverride_def resolvePitch_keeps
           fold_resolvePitch_keeps split: option.splits list.splits arg.splits)

lemma parseEvent_scoreInv:
  "parseEvent token inst vId b r (c, st) = Inr (c', st') \<Longrightarrow> scoreInv st \<Longrightarrow> scoreInv st'"
  by (auto simp: parseEvent_def Let_def scoreInv_def putCursor_def buildEvent_velocityRule
           split: if_splits sum.splits option.splits)

lemma macroEvents_scoreInv:
  "macroEvents ts inst vId b cs = Inr cs' \<Longrightarrow> scoreInv (snd cs) \<Longrightarrow> scoreInv (snd cs')"
proof (induction ts arbitrary: cs)
  case Nil
  then show ?case by simp
next
  case (Cons t ts)
  then show ?case
    by (cases cs) (auto split: sum.splits dest!: parseEvent_scoreInv)
qed

lemma handleMacro_scoreInv:
  "handleMacro token inst vId b cs = Inr cs' \<Longrightarrow> scoreInv (snd cs) \<Longrightarrow> scoreInv (snd cs')"
  by (auto simp: handleMacro_def Let_def split_def split: option.splits dest: macroEvents_scoreInv)


lemma scoreInv_consume [simp]: "scoreInv (snd (consume st)) = scoreInv st"
  by (rule scoreInv_cong) simp

lemma scoreInv_tokenIndex [simp]: "scoreInv (st\<lparr>tokenIndex := i\<rparr>) = scoreInv st"
  by (rule scoreInv_cong) simp

lemma voiceLoop_scoreInv:
  assumes "voiceLoop inst vId b tm c st = Some (Inr st')" and "scoreInv st"
  shows "scoreInv st'"
proof -
  have "\<forall>st'. y = Inr st' \<longrightarrow> scoreInv st \<longrightarrow> scoreInv st'"
    if "voiceLoop inst vId b tm c st = Some y" for y
  proof (rule voiceLoop.raw_induct
      [where P = "\<lambda>inst vId b tm c st y. \<forall>st'. y = Inr st' \<longrightarrow> scoreInv st \<longrightarrow> scoreInv st'", OF _ that],
      goal_cases)
    case (1 f inst vId b tm c st y)
    show ?case
      using 1(2)
      by (auto simp: Let_def rbind_eq_Some_Inr split: if_splits
               dest!: 1(1) parseEvent_scoreInv handleMacro_scoreInv)
  qed
  with assms show ?thesis by blast
qed

lemma parseVoiceStream_scoreInv:
  "parseVoiceStream inst vId b tm st = Some (Inr st') \<Longrightarrow> scoreInv st \<Longrightarrow> scoreInv st'"
  unfolding parseVoiceStream_def by (rule voiceLoop_scoreInv)

lemma initCursor_scoreInv: "initCursor i v st = Inr st' \<Longrightarrow> scoreInv st \<Longrightarrow> scoreInv st'"
  using scoreInv_cong [OF initCursor_produced] by blast

lemma voiceGroup_scoreInv:
  assumes "voiceGroup inst instId b st = Some (Inr st')" and "scoreInv st"
  shows "scoreInv st'"
proof -
  have "\<forall>st'. y = Inr st' \<longrightarrow> scoreInv st \<longrightarrow> scoreInv st'"
    if "voiceGroup inst instId b st = Some y" for y
  proof (rule voiceGroup.raw_induct
      [where P = "\<lambda>inst instId b st y. \<forall>st'. y = Inr st' \<longrightarrow> scoreInv st \<longrightarrow> scoreInv st'", OF _ that],
      goal_cases)
    case (1 f inst instId b st y)
    show ?case
      using 1(2)
      by (auto simp: Let_def rbind_eq_Some_Inr split: if_splits
               dest!: 1(1) parseVoiceStream_scoreInv initCursor_scoreInv)
  qed
  with assms show ?thesis by blast
qed

lemma parseInstrumentLogic_scoreInv:
  "parseInstrumentLogic instId b st = Some (Inr st') \<Longrightarrow> scoreInv st \<Longrightarrow> scoreInv st'"
  by (auto simp: parseInstrumentLogic_def Let_def rbind_eq_Some_Inr
           split: if_splits option.splits
           dest!: voiceGroup_scoreInv parseVoiceStream_scoreInv initCursor_scoreInv)

lemma parseMetaBlock_scoreInv:
  "parseMetaBlock st = Some (Inr st') \<Longrightarrow> scoreInv st \<Longrightarrow> scoreInv st'"
  using scoreInv_cong [OF parseMetaBlock_produced] by blast

lemma replayBlock_scoreInv:
  assumes "replayBlock b be st = Some (Inr st')" and "scoreInv st"
  shows "scoreInv st'"
proof -
  have "\<forall>st'. y = Inr st' \<longrightarrow> scoreInv st \<longrightarrow> scoreInv st'"
    if "replayBlock b be st = Some y" for y
  proof (rule replayBlock.raw_induct
      [where P = "\<lambda>b be st y. \<forall>st'. y = Inr st' \<longrightarrow> scoreInv st \<longrightarrow> scoreInv st'", OF _ that],
      goal_cases)
    case (1 f b be st y)
    show ?case
      using 1(2)
      by (auto simp: Let_def rbind_eq_Some_Inr split: if_splits
               dest!: 1(1) parseInstrumentLogic_scoreInv parseMetaBlock_scoreInv)
  qed
  with assms show ?thesis by blast
qed

lemma measureLoop_scoreInv:
  assumes "measureLoop m e tpm bs be st = Some (Inr st')" and "scoreInv st"
  shows "scoreInv st'"
proof -
  have "\<forall>st'. y = Inr st' \<longrightarrow> scoreInv st \<longrightarrow> scoreInv st'"
    if "measureLoop m e tpm bs be st = Some y" for y
  proof (rule measureLoop.raw_induct
      [where P = "\<lambda>m e tpm bs be st y. \<forall>st'. y = Inr st' \<longrightarrow> scoreInv st \<longrightarrow> scoreInv st'", OF _ that],
      goal_cases)
    case (1 f m e tpm bs be st y)
    show ?case
      using 1(2)
      by (auto simp: Let_def rbind_eq_Some_Inr split: if_splits
               dest!: 1(1) replayBlock_scoreInv)
  qed
  with assms show ?thesis by blast
qed

lemma scoreInv_match [simp]: "scoreInv (snd (match v st)) = scoreInv st"
  by (rule scoreInv_cong) simp

lemma scoreInv_measureScan [simp]: "scoreInv (measureScan n st) = scoreInv st"
  by (rule scoreInv_cong) simp

lemma parseMeasure_scoreInv:
  "parseMeasure st = Some (Inr st') \<Longrightarrow> scoreInv st \<Longrightarrow> scoreInv st'"
  by (auto simp: parseMeasure_def Let_def split_def rbind_eq_Some_Inr split: if_splits
           dest!: measureLoop_scoreInv)

lemma parseGroup_scoreInv:
  "parseGroup st = Some (Inr st') \<Longrightarrow> scoreInv st \<Longrightarrow> scoreInv st'"
  using scoreInv_cong [OF parseGroup_produced] by blast

lemma scoreInv_parseDef [simp]: "scoreInv (parseDef st) = scoreInv st"
  by (rule scoreInv_cong) simp

lemma scoreInv_parseMacroDef [simp]: "scoreInv (parseMacroDef st) = scoreInv st"
  by (rule scoreInv_cong) simp

lemma parseBody_scoreInv:
  assumes "parseBody st = Some (Inr st')" and "scoreInv st"
  shows "scoreInv st'"
proof -
  have "\<forall>st'. y = Inr st' \<longrightarrow> scoreInv st \<longrightarrow> scoreInv st'"
    if "parseBody st = Some y" for y
  proof (rule parseBody.raw_induct
      [where P = "\<lambda>st y. \<forall>st'. y = Inr st' \<longrightarrow> scoreInv st \<longrightarrow> scoreInv st'", OF _ that],
      goal_cases)
    case (1 f st y)
    show ?case
      using 1(2)
      by (auto simp: Let_def rbind_eq_Some_Inr
               split: if_splits dest!: 1(1) parseMeasure_scoreInv parseMetaBlock_scoreInv parseGroup_scoreInv)
  qed
  with assms show ?thesis by blast
qed

lemma scoreInv_init: "scoreInv ((initParser code)\<lparr>tokens := ts, tokenIndex := 0\<rparr>)"
  by (simp add: scoreInv_def initParser_def)

lemma parseRoot_scoreInv:
  "parseRoot code = Some (Inr st) \<Longrightarrow> scoreInv st"
  using scoreInv_init [where code = code and ts = "tokenize (stripComments (source (initParser code)))"]
  by (auto simp: parseRoot_def Let_def rbind_eq_Some_Inr split: if_splits
           dest!: parseBody_scoreInv)

section \<open>The duration of the score\<close>

text \<open>
  Claim C6, amended. For every compiled score, \<open>durationTicks\<close> equals the \<open>tickEnd\<close> of
  the last event of the sorted timeline, and 0 when the timeline is empty.
\<close>

theorem C6_durationTicks_is_last_tickEnd:
  assumes "parse src = Some (Inr sc)"
  shows "durationTicks sc = (if timeline sc = [] then Fin 0 else tickEnd (last (timeline sc)))"
proof -
  from assms obtain st where st: "parseRoot src = Some (Inr st)" and sc: "sc = finalize st"
    by (auto simp: parse_def rbind_eq_Some_Inr)
  have "durationTicks (score st) = Fin 0"
    using parseRoot_scoreInv [OF st] by (simp add: scoreInv_def)
  then show ?thesis by (simp add: sc finalize_def Let_def)
qed

theorem C6_durationTicks_is_last_tickEnd_witness:
  "returns (parse ''def pno measure 1 { pno: c d }'')
     (\<lambda>sc. timeline sc \<noteq> [] \<and> durationTicks sc = tickEnd (last (timeline sc)))"
proof -
  have "returns (parse ''def pno measure 1 { pno: c d }'') (\<lambda>sc. timeline sc \<noteq> [])"
    by code_simp
  then obtain sc where p: "parse ''def pno measure 1 { pno: c d }'' = Some (Inr sc)"
    and ne: "timeline sc \<noteq> []"
    by (auto simp: returns_def split: option.splits sum.splits)
  show ?thesis using C6_durationTicks_is_last_tickEnd [OF p] ne by (simp add: returns_def p)
qed

text \<open>Claim C6 as stated fails on
  \<^verbatim>\<open>def pno measure 1 { pno: { v1: c d | v2: e f.grace } }\<close>: the sorted timeline is
  \<^verbatim>\<open>c\<close>, \<^verbatim>\<open>e\<close>, \<^verbatim>\<open>d\<close>, \<^verbatim>\<open>f.grace\<close>; the grace note starts at 1920 and ends there, after
  it in the timeline stands no event, so \<open>durationTicks\<close> is 1920, while \<^verbatim>\<open>d\<close> ends at
  3840.\<close>

theorem C6_durationTicks_below_max_tickEnd:
  "returns (parse ''def pno measure 1 { pno: { v1: c d | v2: e f.grace } }'')
     (\<lambda>sc. map tickEnd (timeline sc) = [Fin 1920, Fin 1920, Fin 3840, Fin 1920] \<and>
            durationTicks sc = Fin 1920)"
  by code_simp

section \<open>Velocity\<close>

text \<open>
  Claim C10, amended. In every compiled score, the velocity of an event is decided by the
  first modifier named \<^verbatim>\<open>vol\<close> or \<^verbatim>\<open>vel\<close> in its modifier list: when that modifier's
  first argument is a number, the velocity is that number divided by 127, with no
  clamping; otherwise, and when there is no such modifier, the velocity is 0.8.
\<close>

theorem C10_velocity_from_first_vol_modifier:
  assumes "parse src = Some (Inr sc)"
  shows "\<forall>e \<in> set (timeline sc). velocityRule e"
proof -
  from assms obtain st where st: "parseRoot src = Some (Inr st)" and sc: "sc = finalize st"
    by (auto simp: parse_def rbind_eq_Some_Inr)
  have "list_all velocityRule (timeline (score st))"
    using parseRoot_scoreInv [OF st] by (simp add: scoreInv_def)
  then show ?thesis by (simp add: sc timeline_finalize list_all_iff)
qed

theorem C10_velocity_from_first_vol_modifier_witness:
  "returns (parse velocitySource)
     (\<lambda>sc. map velocity (timeline sc) = [Fin (50 / 127)] \<and> list_all velocityRule (timeline sc))"
proof -
  have "returns (parse velocitySource) (\<lambda>sc. map velocity (timeline sc) = [Fin (50 / 127)])"
    by code_simp
  then obtain sc where p: "parse velocitySource = Some (Inr sc)"
    and v: "map velocity (timeline sc) = [Fin (50 / 127)]"
    by (auto simp: returns_def split: option.splits sum.splits)
  show ?thesis
    using C10_velocity_from_first_vol_modifier [OF p] v by (simp add: returns_def p list_all_iff)
qed

text \<open>Claim C10 as stated fails on \<^verbatim>\<open>def p measure 1 { p: "c.vol.vel(50).x" }\<close>: the
  modifier list of the event holds \<^verbatim>\<open>vel\<close> with the numeric first argument 50, yet the
  velocity is 0.8 and not 50/127, because the first \<^verbatim>\<open>vol\<close>/\<^verbatim>\<open>vel\<close> modifier is the
  bare \<^verbatim>\<open>vol\<close>.\<close>

theorem C10_later_vel_modifier_is_ignored:
  "returns (parse laterVelSource)
     (\<lambda>sc. map (\<lambda>e. (modifiers e, velocity e)) (timeline sc) =
        [([\<lparr>name = ''vol'', args = []\<rparr>, \<lparr>name = ''vel'', args = [Num (Fin 50)]\<rparr>,
           \<lparr>name = ''x'' @ [DQ], args = []\<rparr>], Fin (4 / 5))])"
  by code_simp

section \<open>The first event of a voice\<close>









end
